theory Spec2Isabelle
  imports Complex_Main "HOL-Library.Word"
begin

unbundle bit_operations_syntax

section \<open>Arithmetic of the target\<close>

text \<open>
  The sketches compute with \<open>float\<close> and \<open>double\<close> values. Their operations are taken as
  a parameter: a value of type \<open>'f\<close> is a floating-point value and the record below holds
  the operations the code applies to such values, in whatever way they round. Every
  theorem that takes an \<open>'f farith\<close> holds for each choice of these operations.
\<close>

record 'f farith =
  fadd :: "'f \<Rightarrow> 'f \<Rightarrow> 'f"
  fsub :: "'f \<Rightarrow> 'f \<Rightarrow> 'f"
  fmul :: "'f \<Rightarrow> 'f \<Rightarrow> 'f"
  fdiv :: "'f \<Rightarrow> 'f \<Rightarrow> 'f"
  fint :: "int \<Rightarrow> 'f"
  flit :: "rat \<Rightarrow> 'f"
  ftrunc :: "'f \<Rightarrow> int"
  fless :: "'f \<Rightarrow> 'f \<Rightarrow> bool"
  feq :: "'f \<Rightarrow> 'f \<Rightarrow> bool"
  fsin :: "'f \<Rightarrow> 'f"
  fcos :: "'f \<Rightarrow> 'f"
  frepr :: "'f \<Rightarrow> 32 word"

text \<open>
  \<open>fint\<close> converts an integer, \<open>flit\<close> is a decimal literal of the source, \<open>ftrunc\<close> the
  conversion to an integer type, \<open>fless\<close> and \<open>feq\<close> the comparisons \<open><\<close> and \<open>==\<close>,
  \<open>fsin\<close> and \<open>fcos\<close> the library functions and \<open>frepr\<close> the 32-bit object
  representation of a \<open>float\<close>.

  Arithmetic without rounding, on the reals, is one instance. It is used to run the model
  on inputs on which the machine operations are exact as well (small integers and their
  halves). Its \<open>frepr\<close> is the two's complement pattern of the integer part.
\<close>

definition exact :: "real farith" where
  "exact = \<lparr> fadd = (+), fsub = (-), fmul = (*), fdiv = (/),
             fint = of_int, flit = of_rat,
             ftrunc = (\<lambda>x. if 0 \<le> x then \<lfloor>x\<rfloor> else \<lceil>x\<rceil>),
             fless = (<), feq = (=), fsin = sin, fcos = cos,
             frepr = (\<lambda>x. word_of_int \<lfloor>x\<rfloor>) \<rparr>"

text \<open>
  Division of C++ on signed integers truncates towards zero; \<open>div\<close> of HOL rounds down.
\<close>

definition tdiv :: "int \<Rightarrow> int \<Rightarrow> int" where
  "tdiv a b = (if (a < 0) = (b < 0) then \<bar>a\<bar> div \<bar>b\<bar> else - (\<bar>a\<bar> div \<bar>b\<bar>))"

datatype fault = DivisionByZero | OutOfBounds

section \<open>Acquisition: the spectral tick and the hand-off to the host\<close>

datatype opmode = spectral | shortPulse | turnOn | turnOff

datatype sigtype = signalVoltage | signalRaw

text \<open>
  The globals of \<open>SpectralProcessingDSMV.ino\<close> that \<open>spectralRead\<close>, \<open>sendDataToPC\<close> and the
  acquisition commands of \<open>checkUpdateUSB\<close> read and write. \<open>bufLen\<close> is a \<open>uint32_t\<close>,
  \<open>bufPos\<close> an \<open>int32_t\<close>, \<open>sumAD4020\<close> an \<open>int64_t\<close>, \<open>samples\<close> and \<open>oversamples\<close> are \<open>int\<close>.
  The version of the sketch without pulse modes has no \<open>mode\<close>, \<open>ADready\<close> and \<open>wait\<close>.
\<close>

record 'f acq =
  mode :: opmode
  ADready :: int
  wait :: bool
  bufLen :: "32 word"
  bufAD4020 :: "8 word list"
  bufPos :: int
  full :: bool
  request :: bool
  sampleStart :: bool
  oversamples :: int
  samples :: int
  signalType :: sigtype
  voltageAD4020 :: 'f
  sumAD4020 :: int
  gainAD4020 :: 'f
  offsetAD4020 :: 'f

definition maxLen :: nat where
  "maxLen = 4 * 32768"

definition RES_AD4020 :: rat where
  "RES_AD4020 = 190734863 / 10 ^ 13"

text \<open>
  \<open>LBYTE\<close>, \<open>HBYTE\<close>, \<open>H2BYTE\<close> and \<open>H3BYTE\<close> read the bytes of an object at the address
  offsets 0, 1, 2 and 3. The Teensy 4.0 is little-endian, so offset \<open>k\<close> holds the bits
  \<open>8k\<close> to \<open>8k+7\<close> of the 32-bit representation.
\<close>

definition LBYTE :: "32 word \<Rightarrow> 8 word" where
  "LBYTE w = ucast w"

definition HBYTE :: "32 word \<Rightarrow> 8 word" where
  "HBYTE w = ucast (drop_bit 8 w)"

definition H2BYTE :: "32 word \<Rightarrow> 8 word" where
  "H2BYTE w = ucast (drop_bit 16 w)"

definition H3BYTE :: "32 word \<Rightarrow> 8 word" where
  "H3BYTE w = ucast (drop_bit 24 w)"

text \<open>
  The averaging and conversion of \<open>spectralRead\<close>: the sum is divided in place by the
  number of oversamples, then converted according to the signal type.
\<close>

definition average :: "'f acq \<Rightarrow> 'f acq" where
  "average s = s\<lparr>sumAD4020 := tdiv (sumAD4020 s) (oversamples s)\<rparr>"

definition convert :: "'f farith \<Rightarrow> 'f acq \<Rightarrow> 'f" where
  "convert ops s =
     (case signalType s of
        signalVoltage \<Rightarrow>
          fadd ops (fmul ops (fmul ops (flit ops RES_AD4020) (gainAD4020 s))
                              (fint ops (sumAD4020 s)))
                   (offsetAD4020 s)
      | signalRaw \<Rightarrow> fint ops (sumAD4020 s))"

text \<open>The four byte stores of the record, at \<open>bufPos\<close> to \<open>bufPos + 3\<close>.\<close>

definition store_bytes :: "8 word list \<Rightarrow> nat \<Rightarrow> 32 word \<Rightarrow> 8 word list" where
  "store_bytes b p w =
     b[p := LBYTE w, p + 1 := HBYTE w, p + 2 := H2BYTE w, p + 3 := H3BYTE w]"

text \<open>
  The part of \<open>spectralRead\<close> that both versions share once the sample counter has been
  incremented and has reached \<open>oversamples\<close>. \<open>adv\<close> tells whether the position advances.
  The result is the new state and the value stored in this tick. The comparison
  \<open>bufPos >= bufLen\<close> is between an \<open>int32_t\<close> and a \<open>uint32_t\<close>, hence unsigned.
\<close>

definition store_value :: "'f farith \<Rightarrow> bool \<Rightarrow> 'f acq \<Rightarrow> fault + ('f acq \<times> 'f option)" where
  "store_value ops adv s =
     (if oversamples s = 0 then Inl DivisionByZero
      else
        let s1 = average s;
            v = convert ops s1;
            s2 = s1\<lparr>voltageAD4020 := v\<rparr>
        in if \<not> (0 \<le> bufPos s2 \<and> nat (bufPos s2) + 3 < length (bufAD4020 s2))
           then Inl OutOfBounds
           else
             let s3 = s2\<lparr>bufAD4020 := store_bytes (bufAD4020 s2) (nat (bufPos s2)) (frepr ops v),
                        sumAD4020 := 0\<rparr>;
                 s4 = (if adv then s3\<lparr>bufPos := bufPos s3 + 4\<rparr> else s3);
                 s5 = s4\<lparr>samples := 0\<rparr>
             in if bufPos s5 mod 2 ^ 32 \<ge> uint (bufLen s5)
                then Inr (s5\<lparr>full := True, wait := True\<rparr>, Some v)
                else Inr (s5, Some v))"

text \<open>\<open>spectralRead\<close> of the sketch without pulse modes (version 1.3).\<close>

definition spectralRead_basic :: "'f farith \<Rightarrow> int \<Rightarrow> 'f acq \<Rightarrow> fault + ('f acq \<times> 'f option)" where
  "spectralRead_basic ops val s =
     (if full s then Inr (s, None)
      else
        let s1 = s\<lparr>sumAD4020 := sumAD4020 s + val\<rparr>
        in if sampleStart s1
           then Inr (s1\<lparr>sumAD4020 := 0, sampleStart := False\<rparr>, None)
           else
             let s2 = s1\<lparr>samples := samples s1 + 1\<rparr>
             in if samples s2 \<ge> oversamples s2
                then (case store_value ops True s2 of
                        Inl e \<Rightarrow> Inl e
                      | Inr (s3, v) \<Rightarrow> Inr (s3\<lparr>wait := wait s\<rparr>, v))
                else Inr (s2, None))"

text \<open>\<open>spectralRead\<close> of \<open>SpectralProcessingDSMV.ino\<close>, with the pulse and step modes.\<close>

definition spectralRead :: "'f farith \<Rightarrow> int \<Rightarrow> 'f acq \<Rightarrow> fault + ('f acq \<times> 'f option)" where
  "spectralRead ops val s =
     (if full s then Inr (s, None)
      else if mode s \<noteq> spectral \<and> ADready s = 0 then Inr (s\<lparr>ADready := 1\<rparr>, None)
      else if mode s \<noteq> spectral \<and> ADready s = 2 \<and> \<not> wait s then Inr (s\<lparr>ADready := 3\<rparr>, None)
      else
        let s1 = s\<lparr>sumAD4020 := sumAD4020 s + val\<rparr>
        in if sampleStart s1
           then Inr (s1\<lparr>sumAD4020 := 0, sampleStart := False\<rparr>, None)
           else
             let s2 = s1\<lparr>samples := samples s1 + 1\<rparr>
             in if samples s2 \<ge> oversamples s2
                then store_value ops (mode s2 = spectral \<or> \<not> wait s2)
                       (if mode s2 \<noteq> spectral \<and> ADready s2 = 1 then s2\<lparr>ADready := 2\<rparr> else s2)
                else Inr (s2, None))"

text \<open>
  \<open>sendDataToPC\<close>, called from the main loop. The second component is what \<open>T4sw\<close> is
  given to transmit, if it is called: the first \<open>bufLen\<close> bytes of the buffer.
\<close>

definition sendDataToPC_basic :: "'f acq \<Rightarrow> 'f acq \<times> 8 word list option" where
  "sendDataToPC_basic s =
     (if \<not> full s then (s, None)
      else
        let s1 = s\<lparr>bufPos := 0, sampleStart := True\<rparr>
        in if \<not> request s1 then (s1\<lparr>full := False\<rparr>, None)
           else (s1\<lparr>request := False, full := False\<rparr>,
                 Some (take (unat (bufLen s1)) (bufAD4020 s1))))"

definition sendDataToPC :: "'f acq \<Rightarrow> 'f acq \<times> 8 word list option" where
  "sendDataToPC s =
     (if \<not> full s then (s, None)
      else
        let s1 = s\<lparr>bufPos := 0, sampleStart := True\<rparr>
        in if \<not> request s1 then (s1\<lparr>wait := True, full := False, ADready := 0\<rparr>, None)
           else (s1\<lparr>request := False, wait := True, full := False, ADready := 0\<rparr>,
                 Some (take (unat (bufLen s1)) (bufAD4020 s1))))"

text \<open>
  The globals as the sketch initialises them. All zero-initialised arrays are lists of
  zeros.
\<close>

definition acq_init :: "'f farith \<Rightarrow> 'f acq" where
  "acq_init ops =
     \<lparr> mode = spectral, ADready = 0, wait = True, bufLen = 4 * 100,
       bufAD4020 = replicate maxLen 0, bufPos = 0, full = False, request = False,
       sampleStart = True, oversamples = 1, samples = 0, signalType = signalVoltage,
       voltageAD4020 = fint ops 0, sumAD4020 = 0,
       gainAD4020 = flit ops 1, offsetAD4020 = fint ops 0 \<rparr>"

text \<open>
  In the pulse and step modes \<open>spectralRead\<close> drops a read before it touches the sum while
  the cycle is being armed.
\<close>

definition pulse_discard :: "'f acq \<Rightarrow> bool" where
  "pulse_discard s = (mode s \<noteq> spectral \<and> (ADready s = 0 \<or> (ADready s = 2 \<and> \<not> wait s)))"

text \<open>
  The tick fires once for each raw value that the converter delivers. \<open>ticks\<close> runs a
  tick function over the values in order and collects what each tick stored; a fault ends
  the run.
\<close>

fun ticks :: "('a \<Rightarrow> 's \<Rightarrow> fault + ('s \<times> 'o)) \<Rightarrow> 'a list \<Rightarrow> 's \<Rightarrow> fault + ('s \<times> 'o list)" where
  "ticks step [] s = Inr (s, [])"
| "ticks step (v # vs) s =
     (case step v s of
        Inl e \<Rightarrow> Inl e
      | Inr (s1, out) \<Rightarrow>
          (case ticks step vs s1 of
             Inl e \<Rightarrow> Inl e
           | Inr (s2, outs) \<Rightarrow> Inr (s2, out # outs)))"

text \<open>
  Two abbreviations used in the statements below: the state after the raw value has been
  added and counted, and the state that \<open>store_value\<close> returns when it does not fault.
\<close>

definition counted :: "'f acq \<Rightarrow> int \<Rightarrow> 'f acq" where
  "counted s val = s\<lparr>sumAD4020 := sumAD4020 s + val, samples := samples s + 1\<rparr>"

definition stored :: "'f farith \<Rightarrow> bool \<Rightarrow> 'f acq \<Rightarrow> 'f acq" where
  "stored ops adv s =
     (let v = convert ops (average s);
          p = (if adv then bufPos s + 4 else bufPos s);
          f = (uint (bufLen s) \<le> p mod 2 ^ 32)
      in s\<lparr>voltageAD4020 := v,
           bufAD4020 := store_bytes (bufAD4020 s) (nat (bufPos s)) (frepr ops v),
           sumAD4020 := 0, bufPos := p, samples := 0,
           full := full s \<or> f, wait := wait s \<or> f\<rparr>)"

text \<open>Concrete states on which the model is run below.\<close>

definition acq_demo :: "real acq" where
  "acq_demo = (acq_init exact)\<lparr>oversamples := 4, samples := 3, sumAD4020 := - 6,
                 sampleStart := False, signalType := signalRaw\<rparr>"


definition acq_ready :: "real acq" where
  "acq_ready = (acq_init exact)\<lparr>full := True, request := True, bufPos := 400\<rparr>"

section \<open>The filters of the sketch\<close>

datatype fkind =
  scaling | movingAvg | lpf1 | hpf1 | bandpass | bandstop | FIRlow | FIRhigh
  | lpf2 | lpf3 | progIIR | ownDef

definition PI :: rat where
  "PI = 31415926535897932384626433832795 / 10 ^ 31"

definition RES_LTC2500 :: rat where
  "RES_LTC2500 = 11920929 / 10 ^ 13"

definition Nmax :: nat where
  "Nmax = 256"

definition Niirmax :: nat where
  "Niirmax = 200"

definition MfilterMax :: nat where
  "MfilterMax = 70"

definition NfilterMax :: nat where
  "NfilterMax = 2 * MfilterMax + 1"

definition coeffPrec :: nat where
  "coeffPrec = 9"

text \<open>
  The globals of the filters: the selection and the properties of
  \<open>SpectralProcessingDSMV.ino\<close>, and the history that each header keeps. \<open>bn\<close> and \<open>an\<close> are
  the coefficient tables of the programmable IIR filter, which an included file supplies.
\<close>

record 'f filters =
  filter_sel :: fkind
  filterProperties :: "fkind \<Rightarrow> 'f list"
  scalingGain :: 'f
  processingRate :: 'f
  gainLTC2500 :: 'f
  offsetLTC2500 :: 'f
  dbuffer :: "'f list"
  idbuffer :: int
  yln_1 :: 'f
  xhn_1 :: 'f
  yhn_1 :: 'f
  yl2n_1 :: 'f
  yl2n_2 :: 'f
  yl3n_1 :: 'f
  yl3n_2 :: 'f
  yl3n_3 :: 'f
  ynhist :: "'f list"
  xnhist :: "'f list"
  bn :: "'f list"
  an :: "'f list"
  yown_n1 :: 'f
  yown_n2 :: 'f
  filtercoeff :: "'f list"
  filtercoeffInt :: "32 word list"
  dataBuffer :: "'f list"
  dataBufferInt :: "32 word list"
  fir_bufPos :: nat
  phi :: 'f
  phihigh :: 'f

subsection \<open>Scaling\<close>

definition proc_scale :: "'f farith \<Rightarrow> 'f \<Rightarrow> 'f list \<Rightarrow> 'f" where
  "proc_scale ops val props = fmul ops val (props ! 0)"

text \<open>
  The overload on integers: the \<open>int32_t\<close> value is promoted to 64 bits, multiplied by the
  \<open>int64_t\<close> factor, shifted right arithmetically by 32 and converted to \<open>float\<close>.
\<close>

definition proc_scale_int :: "'f farith \<Rightarrow> 32 word \<Rightarrow> 64 word list \<Rightarrow> 'f" where
  "proc_scale_int ops val props =
     fint ops (sint (signed_drop_bit 32 ((scast val :: 64 word) * props ! 0)))"

subsection \<open>Moving average\<close>

text \<open>
  The summation loop of \<open>proc_avg\<close>. \<open>n\<close> is the loop bound as the source compares it with
  the \<open>int\<close> counter: \<open>i < n\<close>. A read outside \<open>dbuffer\<close> is a fault.
\<close>

function avg_loop :: "(int \<Rightarrow> bool) \<Rightarrow> 'f farith \<Rightarrow> 'f list \<Rightarrow> int \<Rightarrow> int \<Rightarrow> 'f \<Rightarrow> fault + 'f" where
  "avg_loop below ops buf idb i avg =
     (if below i then
        (let j = (if idb - i \<ge> 0 then idb - i else int Nmax + (idb - i))
         in if 0 \<le> j \<and> j < int Nmax \<and> nat j < length buf
            then avg_loop below ops buf idb (i + 1) (fadd ops avg (buf ! nat j))
            else Inl OutOfBounds)
      else Inr avg)"
  by pat_completeness auto
termination
  by (relation "measure (\<lambda>(below, ops, buf, idb, i, avg). nat (int Nmax + idb + 1 - i))")
     (auto split: if_splits)

declare avg_loop.simps [simp del]

text \<open>\<open>proc_avg\<close> with the properties array: the bound and the divisor are \<open>props[0]\<close>.\<close>

definition proc_avg :: "'f farith \<Rightarrow> 'f \<Rightarrow> 'f list \<Rightarrow> 'f filters \<Rightarrow> fault + ('f \<times> 'f filters)" where
  "proc_avg ops val props s =
     (if \<not> (0 \<le> idbuffer s \<and> nat (idbuffer s) < length (dbuffer s)) then Inl OutOfBounds
      else
        let buf = (dbuffer s)[nat (idbuffer s) := val]
        in case avg_loop (\<lambda>i. fless ops (fint ops i) (props ! 0)) ops buf (idbuffer s) 0 (fint ops 0) of
             Inl e \<Rightarrow> Inl e
           | Inr avg \<Rightarrow>
               let idb = idbuffer s + 1
               in Inr (fdiv ops avg (props ! 0),
                       s\<lparr>dbuffer := buf, idbuffer := (if idb \<ge> int Nmax then 0 else idb)\<rparr>))"

text \<open>
  \<open>proc_avg\<close> of the sketch without properties array: the number of samples is an \<open>int\<close>,
  limited to \<open>Nmax\<close> and to at least 1 before it is used.
\<close>

definition clamp_samples :: "int \<Rightarrow> int" where
  "clamp_samples n = (let n1 = (if n > int Nmax then int Nmax else n) in if n1 \<le> 0 then 1 else n1)"

definition proc_avg_basic :: "'f farith \<Rightarrow> 'f \<Rightarrow> int \<Rightarrow> 'f filters \<Rightarrow> fault + ('f \<times> 'f filters)" where
  "proc_avg_basic ops val n s =
     (let n2 = clamp_samples n
      in if \<not> (0 \<le> idbuffer s \<and> nat (idbuffer s) < length (dbuffer s)) then Inl OutOfBounds
         else
           let buf = (dbuffer s)[nat (idbuffer s) := val]
           in case avg_loop (\<lambda>i. i < n2) ops buf (idbuffer s) 0 (fint ops 0) of
                Inl e \<Rightarrow> Inl e
              | Inr avg \<Rightarrow>
                  let idb = idbuffer s + 1
                  in Inr (fdiv ops avg (fint ops n2),
                          s\<lparr>dbuffer := buf, idbuffer := (if idb \<ge> int Nmax then 0 else idb)\<rparr>))"

subsection \<open>Recursive filters of first to third order\<close>

definition proc_lpf1 :: "'f farith \<Rightarrow> 'f \<Rightarrow> 'f list \<Rightarrow> 'f filters \<Rightarrow> 'f \<times> 'f filters" where
  "proc_lpf1 ops xn props s =
     (let fac = fdiv ops (props ! 5) (fmul ops (fmul ops (flit ops 2) (flit ops PI)) (props ! 0));
          out = fmul ops (fdiv ops (flit ops 1) (fadd ops fac (flit ops 1)))
                         (fadd ops xn (fmul ops fac (yln_1 s)))
      in (out, s\<lparr>yln_1 := out\<rparr>))"

definition proc_hpf1 :: "'f farith \<Rightarrow> 'f \<Rightarrow> 'f list \<Rightarrow> 'f filters \<Rightarrow> 'f \<times> 'f filters" where
  "proc_hpf1 ops xn props s =
     (let fac = fdiv ops (fmul ops (fmul ops (flit ops 2) (flit ops PI)) (props ! 0)) (props ! 5);
          out = fmul ops (fdiv ops (flit ops 1) (fadd ops fac (flit ops 1)))
                         (fsub ops (fadd ops xn (yhn_1 s)) (xhn_1 s))
      in (out, s\<lparr>yhn_1 := out, xhn_1 := xn\<rparr>))"

definition proc_lpf2 :: "'f farith \<Rightarrow> 'f \<Rightarrow> 'f list \<Rightarrow> 'f filters \<Rightarrow> 'f \<times> 'f filters" where
  "proc_lpf2 ops xn props s =
     (let fswc = fdiv ops (props ! 5) (fmul ops (fmul ops (fint ops 2) (flit ops PI)) (props ! 0));
          sq = fmul ops fswc fswc;
          tw = fmul ops (fint ops 2) fswc;
          fac = fadd ops (fadd ops (fint ops 1) tw) sq;
          fac2 = fadd ops tw (fmul ops tw fswc);
          fac3 = sq;
          out = fmul ops (fdiv ops (flit ops 1) fac)
                  (fadd ops (fsub ops (fmul ops fac2 (yl2n_1 s)) (fmul ops fac3 (yl2n_2 s))) xn)
      in (out, s\<lparr>yl2n_2 := yl2n_1 s, yl2n_1 := out\<rparr>))"

text \<open>\<open>proc_lpf3\<close> reads the processing frequency from \<open>props[3]\<close>.\<close>

definition proc_lpf3 :: "'f farith \<Rightarrow> 'f \<Rightarrow> 'f list \<Rightarrow> 'f filters \<Rightarrow> 'f \<times> 'f filters" where
  "proc_lpf3 ops xn props s =
     (let fswc = fdiv ops (props ! 3) (fmul ops (fmul ops (fint ops 2) (flit ops PI)) (props ! 0));
          t3 = fmul ops (fint ops 3) fswc;
          t6 = fmul ops (fint ops 6) fswc;
          sq = fmul ops fswc fswc;
          cu = fmul ops sq fswc;
          s3 = fmul ops t3 fswc;
          c3 = fmul ops s3 fswc;
          fac = fadd ops (fadd ops (fadd ops (fint ops 1) t3) s3) cu;
          fac1 = fadd ops (fadd ops t3 (fmul ops t6 fswc)) c3;
          fac2 = fadd ops s3 c3;
          fac3 = cu;
          out = fmul ops (fdiv ops (flit ops 1) fac)
                  (fadd ops
                     (fadd ops (fsub ops (fmul ops fac1 (yl3n_1 s)) (fmul ops fac2 (yl3n_2 s)))
                               (fmul ops fac3 (yl3n_3 s)))
                     xn)
      in (out, s\<lparr>yl3n_3 := yl3n_2 s, yl3n_2 := yl3n_1 s, yl3n_1 := out\<rparr>))"

text \<open>\<open>proc_ownDef\<close> passes its input on and records it.\<close>

definition proc_ownDef :: "'f farith \<Rightarrow> 'f \<Rightarrow> 'f list \<Rightarrow> 'f filters \<Rightarrow> 'f \<times> 'f filters" where
  "proc_ownDef ops xn props s = (xn, s\<lparr>yown_n2 := yown_n1 s, yown_n1 := xn\<rparr>)"

subsection \<open>Programmable IIR filter\<close>

text \<open>
  The two loops of \<open>proc_iir\<close> run downwards, the first from \<open>min(Niirmax, Nb) - 1\<close> to 1
  and the second from \<open>min(Niirmax, Na) - 1\<close> to 2. The versions of the file differ in
  whether an entry of the history is used before or after it is shifted. In the
  functions below the argument \<open>Suc c\<close> stands for the index \<open>i = c + 1\<close> of the first and
  \<open>i = c + 2\<close> of the second loop.
\<close>

fun b_mul_shift :: "'f farith \<Rightarrow> 'f list \<Rightarrow> nat \<Rightarrow> 'f list \<Rightarrow> 'f \<Rightarrow> 'f list \<times> 'f" where
  "b_mul_shift ops bs 0 xh yn = (xh, yn)"
| "b_mul_shift ops bs (Suc c) xh yn =
     b_mul_shift ops bs c (xh[Suc c := xh ! c]) (fadd ops yn (fmul ops (bs ! Suc c) (xh ! Suc c)))"

fun b_shift_mul :: "'f farith \<Rightarrow> 'f list \<Rightarrow> nat \<Rightarrow> 'f list \<Rightarrow> 'f \<Rightarrow> 'f list \<times> 'f" where
  "b_shift_mul ops bs 0 xh yn = (xh, yn)"
| "b_shift_mul ops bs (Suc c) xh yn =
     (let xh' = xh[Suc c := xh ! c]
      in b_shift_mul ops bs c xh' (fadd ops yn (fmul ops (bs ! Suc c) (xh' ! Suc c))))"

fun a_mul_shift :: "'f farith \<Rightarrow> 'f list \<Rightarrow> nat \<Rightarrow> 'f list \<Rightarrow> 'f \<Rightarrow> 'f list \<times> 'f" where
  "a_mul_shift ops as 0 yh yn = (yh, yn)"
| "a_mul_shift ops as (Suc c) yh yn =
     a_mul_shift ops as c (yh[Suc c := yh ! c]) (fsub ops yn (fmul ops (as ! (c + 2)) (yh ! Suc c)))"

fun a_shift_mul :: "'f farith \<Rightarrow> 'f list \<Rightarrow> nat \<Rightarrow> 'f list \<Rightarrow> 'f \<Rightarrow> 'f list \<times> 'f" where
  "a_shift_mul ops as 0 yh yn = (yh, yn)"
| "a_shift_mul ops as (Suc c) yh yn =
     (let yh' = yh[Suc c := yh ! c]
      in a_shift_mul ops as c yh' (fsub ops yn (fmul ops (as ! (c + 2)) (yh' ! Suc c))))"

text \<open>
  The tables have \<open>Nb = length bs\<close> and \<open>Na = length as\<close> entries and the histories
  \<open>Niirmax\<close>. \<open>bn[0]\<close> and \<open>an[1]\<close> are read in any case, which is outside a shorter table.
\<close>

definition iir_in_bounds :: "'f list \<Rightarrow> 'f list \<Rightarrow> 'f list \<Rightarrow> 'f list \<Rightarrow> bool" where
  "iir_in_bounds bs as xh yh =
     (1 \<le> length bs \<and> 2 \<le> length as \<and> length xh = Niirmax \<and> length yh = Niirmax)"

text \<open>
  \<open>proc_iir\<close> of \<open>Exercise07-11/SpectralProcessingDSMV/iir.h\<close>: both loops multiply, then
  shift; the input is stored in \<open>xnhist[0]\<close> and then added with \<open>bn[0]\<close>.
\<close>

definition proc_iir_core :: "'f farith \<Rightarrow> 'f list \<Rightarrow> 'f list \<Rightarrow> 'f \<Rightarrow> 'f list \<times> 'f list \<Rightarrow>
    fault + ('f \<times> 'f list \<times> 'f list)" where
  "proc_iir_core ops bs as xn h =
     (case h of (xh, yh) \<Rightarrow>
        if \<not> iir_in_bounds bs as xh yh then Inl OutOfBounds
        else
          let (xh1, y1) = b_mul_shift ops bs (min Niirmax (length bs) - 1) xh (flit ops 0);
              xh2 = xh1[0 := xn];
              y2 = fadd ops y1 (fmul ops (bs ! 0) xn);
              (yh1, y3) = a_mul_shift ops as (min Niirmax (length as) - 2) yh y2;
              y4 = fsub ops y3 (fmul ops (as ! 1) (yh1 ! 0));
              yh2 = yh1[0 := y4]
          in Inr (y4, xh2, yh2))"

text \<open>
  The second version in the file: the first loop shifts, then multiplies; the input is
  stored in \<open>xnhist[0]\<close> and \<open>bn[0]*xnhist[0]\<close> is added.
\<close>

definition proc_iir_shift_first :: "'f farith \<Rightarrow> 'f list \<Rightarrow> 'f list \<Rightarrow> 'f \<Rightarrow> 'f list \<times> 'f list \<Rightarrow>
    fault + ('f \<times> 'f list \<times> 'f list)" where
  "proc_iir_shift_first ops bs as xn h =
     (case h of (xh, yh) \<Rightarrow>
        if \<not> iir_in_bounds bs as xh yh then Inl OutOfBounds
        else
          let (xh1, y1) = b_shift_mul ops bs (min Niirmax (length bs) - 1) xh (flit ops 0);
              xh2 = xh1[0 := xn];
              y2 = fadd ops y1 (fmul ops (bs ! 0) (xh2 ! 0));
              (yh1, y3) = a_mul_shift ops as (min Niirmax (length as) - 2) yh y2;
              y4 = fsub ops y3 (fmul ops (as ! 1) (yh1 ! 0));
              yh2 = yh1[0 := y4]
          in Inr (y4, xh2, yh2))"

text \<open>
  The third version in the file: \<open>bn[0]*xnhist[0]\<close> is added first, and the input is
  stored in \<open>xnhist[0]\<close> afterwards; the second loop shifts, then multiplies.
\<close>

definition proc_iir_late_latch :: "'f farith \<Rightarrow> 'f list \<Rightarrow> 'f list \<Rightarrow> 'f \<Rightarrow> 'f list \<times> 'f list \<Rightarrow>
    fault + ('f \<times> 'f list \<times> 'f list)" where
  "proc_iir_late_latch ops bs as xn h =
     (case h of (xh, yh) \<Rightarrow>
        if \<not> iir_in_bounds bs as xh yh then Inl OutOfBounds
        else
          let (xh1, y1) = b_mul_shift ops bs (min Niirmax (length bs) - 1) xh (flit ops 0);
              y2 = fadd ops y1 (fmul ops (bs ! 0) (xh1 ! 0));
              xh2 = xh1[0 := xn];
              (yh1, y3) = a_shift_mul ops as (min Niirmax (length as) - 2) yh y2;
              y4 = fsub ops y3 (fmul ops (as ! 1) (yh1 ! 0));
              yh2 = yh1[0 := y4]
          in Inr (y4, xh2, yh2))"

text \<open>
  \<open>proc_iir\<close> of the lock-in amplifier filters two signals at once, each with a history
  of its own: both loops shift, then multiply, and the input is stored before
  \<open>bn[0]*xnhist[0]\<close> is added. \<open>proc_iir_channel\<close> is what it does for one signal.
\<close>

definition proc_iir_channel :: "'f farith \<Rightarrow> 'f list \<Rightarrow> 'f list \<Rightarrow> 'f \<Rightarrow> 'f list \<times> 'f list \<Rightarrow>
    fault + ('f \<times> 'f list \<times> 'f list)" where
  "proc_iir_channel ops bs as xn h =
     (case h of (xh, yh) \<Rightarrow>
        if \<not> iir_in_bounds bs as xh yh then Inl OutOfBounds
        else
          let (xh1, y1) = b_shift_mul ops bs (min Niirmax (length bs) - 1) xh (flit ops 0);
              xh2 = xh1[0 := xn];
              y2 = fadd ops y1 (fmul ops (bs ! 0) (xh2 ! 0));
              (yh1, y3) = a_shift_mul ops as (min Niirmax (length as) - 2) yh y2;
              y4 = fsub ops y3 (fmul ops (as ! 1) (yh1 ! 0));
              yh2 = yh1[0 := y4]
          in Inr (y4, xh2, yh2))"

definition proc_iir_lockin :: "'f farith \<Rightarrow> 'f list \<Rightarrow> 'f list \<Rightarrow> 'f \<times> 'f \<Rightarrow>
    ('f list \<times> 'f list) \<times> ('f list \<times> 'f list) \<Rightarrow>
    fault + (('f \<times> 'f) \<times> ('f list \<times> 'f list) \<times> ('f list \<times> 'f list))" where
  "proc_iir_lockin ops bs as xn h =
     (case proc_iir_channel ops bs as (fst xn) (fst h) of
        Inl e \<Rightarrow> Inl e
      | Inr (y0, h0) \<Rightarrow>
          (case proc_iir_channel ops bs as (snd xn) (snd h) of
             Inl e \<Rightarrow> Inl e
           | Inr (y1, h1) \<Rightarrow> Inr ((y0, y1), h0, h1)))"

text \<open>\<open>proc_iir\<close> on the globals of the sketch.\<close>

definition proc_iir :: "'f farith \<Rightarrow> 'f \<Rightarrow> 'f list \<Rightarrow> 'f filters \<Rightarrow> fault + ('f \<times> 'f filters)" where
  "proc_iir ops xn props s =
     (case proc_iir_core ops (bn s) (an s) xn (xnhist s, ynhist s) of
        Inl e \<Rightarrow> Inl e
      | Inr (y, xh, yh) \<Rightarrow> Inr (y, s\<lparr>xnhist := xh, ynhist := yh\<rparr>))"

subsection \<open>FIR filters of the sketch\<close>

text \<open>
  The inner products of \<open>proc_fir\<close>. \<open>idx i\<close> is the position in the data buffer that is
  multiplied with coefficient \<open>i\<close>. The integer variant computes in \<open>int32_t\<close>.
\<close>

definition fir_float :: "'f farith \<Rightarrow> 'f list \<Rightarrow> 'f list \<Rightarrow> (nat \<Rightarrow> nat) \<Rightarrow> nat \<Rightarrow> 'f" where
  "fir_float ops buf coeff idx n =
     foldl (\<lambda>acc i. fadd ops acc (fmul ops (buf ! idx i) (coeff ! i))) (fint ops 0) [0..<n]"

definition fir_int :: "32 word list \<Rightarrow> 32 word list \<Rightarrow> (nat \<Rightarrow> nat) \<Rightarrow> nat \<Rightarrow> 32 word" where
  "fir_int buf coeff idx n = foldl (\<lambda>acc i. acc + buf ! idx i * coeff ! i) 0 [0..<n]"

text \<open>The conversion of a \<open>float\<close> property to \<open>uint16_t\<close>.\<close>

definition to_uint16 :: "'f farith \<Rightarrow> 'f \<Rightarrow> nat" where
  "to_uint16 ops x = nat (ftrunc ops x mod 65536)"

text \<open>
  \<open>proc_fir\<close> for one signal, with the integer and the float arithmetic on the
  double-sized buffer. \<open>integerArithmetic\<close> is 0 and \<open>floatArithmetic\<close> is 1.
\<close>

definition proc_fir :: "'f farith \<Rightarrow> 'f \<Rightarrow> 32 word \<Rightarrow> 'f list \<Rightarrow> 'f filters \<Rightarrow> fault + ('f \<times> 'f filters)" where
  "proc_fir ops xn xnRaw props s =
     (let Nfilter = to_uint16 ops (props ! 2);
          p = fir_bufPos s
      in if Nfilter = 0 then Inl DivisionByZero
         else if \<not> (p + Nfilter < length (dataBuffer s) \<and> p + Nfilter < length (dataBufferInt s))
         then Inl OutOfBounds
         else
           let r = signed_drop_bit (coeffPrec - 7) xnRaw;
               s1 = s\<lparr>dataBuffer := (dataBuffer s)[p := xn, p + Nfilter := xn],
                      dataBufferInt := (dataBufferInt s)[p := r, p + Nfilter := r],
                      fir_bufPos := (p + 1) mod Nfilter\<rparr>;
               q = fir_bufPos s1
           in if \<not> (q + Nfilter \<le> length (dataBuffer s1) \<and> q + Nfilter \<le> length (dataBufferInt s1)
                    \<and> Nfilter \<le> length (filtercoeff s1) \<and> Nfilter \<le> length (filtercoeffInt s1))
              then Inl OutOfBounds
              else if ftrunc ops (props ! 4) = 0 then
                let filteredInt = fir_int (dataBufferInt s1) (filtercoeffInt s1) (\<lambda>i. q + i) Nfilter;
                    f1 = fint ops (sint (signed_drop_bit 7 filteredInt));
                    f2 = fmul ops (flit ops RES_LTC2500) f1;
                    f3 = fadd ops (fmul ops f2 (gainLTC2500 s1)) (offsetLTC2500 s1)
                in Inr (f3, s1)
              else if ftrunc ops (props ! 4) = 1 then
                Inr (fir_float ops (dataBuffer s1) (filtercoeff s1) (\<lambda>i. q + i) Nfilter, s1)
              else Inr (fint ops 0, s1))"

definition rectWin :: int where
  "rectWin = 0"

definition hammingWin :: int where
  "hammingWin = 1"

definition windowfunc :: "'f farith \<Rightarrow> 'f \<Rightarrow> nat \<Rightarrow> 'f list \<Rightarrow> 'f" where
  "windowfunc ops hi i props =
     (if feq ops (props ! 3) (fint ops hammingWin)
      then fmul ops hi
             (fsub ops (flit ops (54 / 100))
                (fmul ops (flit ops (46 / 100))
                   (fcos ops (fdiv ops (fmul ops (fmul ops (fint ops 2) (flit ops PI)) (fint ops (int i)))
                                       (fsub ops (props ! 2) (fint ops 1))))))
      else hi)"

text \<open>
  The loop of \<open>init_fir\<close> that fills both coefficient arrays from the impulse response
  \<open>hk\<close>; the integer coefficients are scaled by \<open>1 << coeffPrec\<close>.
\<close>

definition fill_coeffs :: "'f farith \<Rightarrow> 'f list \<Rightarrow> (nat \<Rightarrow> 'f) \<Rightarrow> nat \<Rightarrow>
    'f list \<times> 32 word list \<Rightarrow> 'f list \<times> 32 word list" where
  "fill_coeffs ops props hk n cs =
     foldl (\<lambda>(fc, fi) i.
              (fc[i := windowfunc ops (hk i) i props],
               fi[i := word_of_int (ftrunc ops
                         (windowfunc ops (fmul ops (fint ops (2 ^ coeffPrec)) (hk i)) i props))]))
           cs [0..<n]"

text \<open>The argument \<open>i - Mfilter\<close> of the impulse responses, as an integer converted.\<close>

definition tap :: "'f farith \<Rightarrow> nat \<Rightarrow> nat \<Rightarrow> 'f" where
  "tap ops i M = fint ops (int i - int M)"

definition sinc_tap :: "'f farith \<Rightarrow> 'f \<Rightarrow> nat \<Rightarrow> nat \<Rightarrow> 'f" where
  "sinc_tap ops ph i M =
     fdiv ops (fsin ops (fmul ops ph (tap ops i M))) (fmul ops (flit ops PI) (tap ops i M))"

definition band_tap :: "'f farith \<Rightarrow> 'f \<Rightarrow> 'f \<Rightarrow> nat \<Rightarrow> nat \<Rightarrow> 'f" where
  "band_tap ops ph phh i M =
     fdiv ops (fsub ops (fsin ops (fmul ops phh (tap ops i M))) (fsin ops (fmul ops ph (tap ops i M))))
              (fmul ops (flit ops PI) (tap ops i M))"

definition fneg :: "'f farith \<Rightarrow> 'f \<Rightarrow> 'f" where
  "fneg ops x = fsub ops (fint ops 0) x"

definition digital_freq :: "'f farith \<Rightarrow> 'f \<Rightarrow> 'f \<Rightarrow> 'f" where
  "digital_freq ops f rate = fdiv ops (fmul ops (fmul ops (fint ops 2) (flit ops PI)) f) rate"

definition scaled_int :: "'f farith \<Rightarrow> 'f \<Rightarrow> 32 word" where
  "scaled_int ops x = word_of_int (ftrunc ops (fmul ops (fint ops (2 ^ coeffPrec)) x))"

text \<open>
  \<open>init_fir\<close> of the sketch. The arrays have \<open>NfilterMax\<close> entries; a filter order beyond
  that writes outside them.
\<close>

definition init_fir :: "'f farith \<Rightarrow> fkind \<Rightarrow> 'f list \<Rightarrow> 'f filters \<Rightarrow> fault + 'f filters" where
  "init_fir ops type props s =
     (let Nfilter = to_uint16 ops (props ! 2);
          Mfilter = (Nfilter - 1) div 2;
          one = fint ops 1
      in if type \<in> {movingAvg, FIRlow, FIRhigh, bandpass, bandstop}
            \<and> \<not> (Nfilter \<le> length (filtercoeff s) \<and> Nfilter \<le> length (filtercoeffInt s)
                  \<and> Mfilter < length (filtercoeff s) \<and> Mfilter < length (filtercoeffInt s))
         then Inl OutOfBounds
         else case type of
           movingAvg \<Rightarrow>
             if Nfilter = 0 then Inr s
             else
               Inr (s\<lparr>filtercoeff := foldl (\<lambda>fc i. fc[i := fdiv ops (flit ops 1) (fint ops (int Nfilter))])
                                        (filtercoeff s) [0..<Nfilter],
                      filtercoeffInt := foldl (\<lambda>fi i. fi[i := word_of_int (tdiv (2 ^ coeffPrec) (int Nfilter))])
                                        (filtercoeffInt s) [0..<Nfilter]\<rparr>)
         | FIRlow \<Rightarrow>
             let ph = digital_freq ops (props ! 0) (props ! 5);
                 (fc, fi) = fill_coeffs ops props (\<lambda>i. sinc_tap ops ph i Mfilter) Nfilter
                              (filtercoeff s, filtercoeffInt s);
                 c = fdiv ops ph (flit ops PI)
             in Inr (s\<lparr>phi := ph, filtercoeff := fc[Mfilter := c],
                       filtercoeffInt := fi[Mfilter := word_of_int (ftrunc ops
                          (fdiv ops (fmul ops (fint ops (2 ^ coeffPrec)) ph) (flit ops PI)))]\<rparr>)
         | FIRhigh \<Rightarrow>
             let ph = digital_freq ops (props ! 0) (props ! 5);
                 (fc, fi) = fill_coeffs ops props (\<lambda>i. fdiv ops (fneg ops (fsin ops (fmul ops ph (tap ops i Mfilter))))
                                                            (fmul ops (flit ops PI) (tap ops i Mfilter)))
                              Nfilter (filtercoeff s, filtercoeffInt s);
                 c = fsub ops one (fdiv ops ph (flit ops PI))
             in Inr (s\<lparr>phi := ph, filtercoeff := fc[Mfilter := c],
                       filtercoeffInt := fi[Mfilter := scaled_int ops c]\<rparr>)
         | bandpass \<Rightarrow>
             let ph = digital_freq ops (props ! 0) (props ! 5);
                 phh = digital_freq ops (props ! 1) (props ! 5);
                 (fc, fi) = fill_coeffs ops props (\<lambda>i. band_tap ops ph phh i Mfilter) Nfilter
                              (filtercoeff s, filtercoeffInt s);
                 c = fdiv ops (fsub ops phh ph) (flit ops PI)
             in Inr (s\<lparr>phi := ph, phihigh := phh, filtercoeffInt := fi[Mfilter := scaled_int ops c],
                       filtercoeff := fc[Mfilter := c]\<rparr>)
         | bandstop \<Rightarrow>
             let ph = digital_freq ops (props ! 0) (props ! 5);
                 phh = digital_freq ops (props ! 1) (props ! 5);
                 (fc, fi) = fill_coeffs ops props (\<lambda>i. fneg ops (band_tap ops ph phh i Mfilter)) Nfilter
                              (filtercoeff s, filtercoeffInt s);
                 c = fsub ops one (fdiv ops (fsub ops phh ph) (flit ops PI))
             in Inr (s\<lparr>phi := ph, phihigh := phh, filtercoeff := fc[Mfilter := c],
                       filtercoeffInt := fi[Mfilter := scaled_int ops c]\<rparr>)
         | _ \<Rightarrow> Inr s)"

subsection \<open>Dispatch and reconfiguration\<close>

text \<open>
  The filter switch of \<open>readProcessOutput\<close> and the scaling gain after it: \<open>outputValue\<close>
  is the corrected voltage and \<open>val\<close> the raw value just read.
\<close>

definition process :: "'f farith \<Rightarrow> 'f \<Rightarrow> 32 word \<Rightarrow> 'f filters \<Rightarrow> fault + ('f \<times> 'f filters)" where
  "process ops outputValue val s =
     (let props = filterProperties s (filter_sel s);
          r = (case filter_sel s of
                 scaling \<Rightarrow> Inr (proc_scale ops outputValue props, s)
               | movingAvg \<Rightarrow> proc_avg ops outputValue props s
               | lpf1 \<Rightarrow> Inr (proc_lpf1 ops outputValue props s)
               | hpf1 \<Rightarrow> Inr (proc_hpf1 ops outputValue props s)
               | bandpass \<Rightarrow> proc_fir ops outputValue val props s
               | bandstop \<Rightarrow> proc_fir ops outputValue val props s
               | FIRlow \<Rightarrow> proc_fir ops outputValue val props s
               | FIRhigh \<Rightarrow> proc_fir ops outputValue val props s
               | lpf2 \<Rightarrow> Inr (proc_lpf2 ops outputValue props s)
               | lpf3 \<Rightarrow> Inr (proc_lpf3 ops outputValue props s)
               | progIIR \<Rightarrow> proc_iir ops outputValue props s
               | ownDef \<Rightarrow> Inr (proc_ownDef ops outputValue props s))
      in case r of
           Inl e \<Rightarrow> Inl e
         | Inr (y, s1) \<Rightarrow>
             Inr (if filter_sel s1 \<noteq> scaling then fmul ops y (scalingGain s1) else y, s1))"

definition resetHistory :: "'f farith \<Rightarrow> 'f filters \<Rightarrow> 'f filters" where
  "resetHistory ops s =
     s\<lparr>yln_1 := flit ops 0, xhn_1 := flit ops 0, yhn_1 := flit ops 0,
       yl2n_1 := flit ops 0, yl2n_2 := flit ops 0,
       yl3n_1 := flit ops 0, yl3n_2 := flit ops 0, yl3n_3 := flit ops 0,
       ynhist := replicate (length (ynhist s)) (fint ops 0),
       xnhist := replicate (length (ynhist s)) (fint ops 0) @ drop (length (ynhist s)) (xnhist s)\<rparr>"

text \<open>
  The filter globals as the sketch initialises them; \<open>setup\<close> selects \<open>ownDef\<close>. The
  coefficient tables of the programmable IIR filter are given.
\<close>

definition defaultRate :: "'f farith \<Rightarrow> 'f" where
  "defaultRate ops = fint ops 5000"

definition defaultProperties :: "'f farith \<Rightarrow> fkind \<Rightarrow> 'f list" where
  "defaultProperties ops k =
     (let z = fint ops 0; one = fint ops 1; r = defaultRate ops
      in case k of
           scaling \<Rightarrow> [one, z, z, z, z, z]
         | movingAvg \<Rightarrow> [one, z, z, z, z, z]
         | lpf1 \<Rightarrow> [z, z, z, z, z, r]
         | hpf1 \<Rightarrow> [z, z, z, z, z, r]
         | bandpass \<Rightarrow> [z, z, one, z, z, r]
         | bandstop \<Rightarrow> [z, z, one, z, z, r]
         | FIRlow \<Rightarrow> [z, z, one, z, z, r]
         | FIRhigh \<Rightarrow> [z, z, one, z, z, r]
         | lpf2 \<Rightarrow> [z, z, z, z, z, r]
         | lpf3 \<Rightarrow> [z, z, z, z, z, r]
         | progIIR \<Rightarrow> [z, z, z, z, z, z]
         | ownDef \<Rightarrow> [z, z, z, z, z, z])"

definition filters_init :: "'f farith \<Rightarrow> 'f list \<Rightarrow> 'f list \<Rightarrow> 'f filters" where
  "filters_init ops bs as =
     (let z = fint ops 0; zf = flit ops 0
      in \<lparr> filter_sel = ownDef, filterProperties = defaultProperties ops,
           scalingGain = fint ops 1, processingRate = defaultRate ops,
           gainLTC2500 = flit ops 1, offsetLTC2500 = fint ops 0,
           dbuffer = replicate Nmax z, idbuffer = 0,
           yln_1 = zf, xhn_1 = zf, yhn_1 = zf, yl2n_1 = zf, yl2n_2 = zf,
           yl3n_1 = zf, yl3n_2 = zf, yl3n_3 = zf,
           ynhist = replicate Niirmax z, xnhist = replicate Niirmax z,
           bn = bs, an = as, yown_n1 = zf, yown_n2 = zf,
           filtercoeff = replicate NfilterMax z, filtercoeffInt = replicate NfilterMax 0,
           dataBuffer = replicate (2 * NfilterMax) z, dataBufferInt = replicate (2 * NfilterMax) 0,
           fir_bufPos = 0, phi = fint ops 0, phihigh = fint ops 0 \<rparr>)"

section \<open>Commands from the host\<close>

text \<open>
  \<open>checkUpdateUSB\<close> receives a line of text; \<open>checkCommand\<close> and the other \<open>check\<close> functions
  map its prefix to an identifier and \<open>toInt\<close> or \<open>toFloat\<close> read its argument. The model
  starts from the identified command with its argument: \<open>None\<close> is the identifier
  \<open>INVALID\<close> of an unknown name, \<open>toInt\<close> gives a \<open>long\<close> of 32 bits.
\<close>

datatype 'f command =
    settingMode "opmode option"
  | settingOversamples int
  | settingSize "32 word"
  | settingSpectralFreq 'f
  | settingProcessingFreq 'f
  | settingSignalType "sigtype option"
  | settingFilter "fkind option"
  | settingFilterProperty1 'f
  | settingFilterProperty2 'f
  | settingFilterProperty3 int
  | settingFilterProperty4 "int option"
  | settingFilterProperty5 "int option"
  | commandRequest
  | INVALID

record 'f sketch =
  acq :: "'f acq"
  flt :: "'f filters"

text \<open>
  \<open>min(4*command.toInt(), maxLen)\<close> compares a \<open>long\<close> with a \<open>uint32_t\<close>: the product,
  computed in 32 bits, is converted to unsigned for the comparison and for the result.
\<close>

definition dataSize :: "32 word \<Rightarrow> 32 word" where
  "dataSize n = (let a = 4 * n in if a < word_of_nat maxLen then a else word_of_nat maxLen)"

definition set_property :: "fkind \<Rightarrow> nat \<Rightarrow> 'f \<Rightarrow> 'f filters \<Rightarrow> 'f filters" where
  "set_property k i v s =
     s\<lparr>filterProperties := (filterProperties s)(k := (filterProperties s k)[i := v])\<rparr>"

definition is_fir :: "fkind \<Rightarrow> bool" where
  "is_fir k = (k \<in> {bandpass, bandstop, FIRlow, FIRhigh})"

text \<open>
  The tail that the property commands share: for the four FIR filters the coefficients
  are computed and the command succeeds, otherwise \<open>other\<close> is returned.
\<close>

definition reinit :: "'f farith \<Rightarrow> bool \<Rightarrow> 'f filters \<Rightarrow> fault + ('f filters \<times> bool)" where
  "reinit ops other s =
     (if is_fir (filter_sel s)
      then (case init_fir ops (filter_sel s) (filterProperties s (filter_sel s)) s of
              Inl e \<Rightarrow> Inl e
            | Inr s1 \<Rightarrow> Inr (s1, True))
      else Inr (s, other))"

definition select_filter :: "'f farith \<Rightarrow> fkind \<Rightarrow> 'f filters \<Rightarrow> fault + 'f filters" where
  "select_filter ops k s =
     (let s1 = s\<lparr>filter_sel := k\<rparr>
      in if k = scaling \<or> k = movingAvg then Inr s1
         else if is_fir k then init_fir ops k (filterProperties s1 k) s1
         else Inr (resetHistory ops s1))"

definition checkUpdateUSB :: "'f farith \<Rightarrow> 'f command \<Rightarrow> 'f sketch \<Rightarrow> fault + ('f sketch \<times> bool)" where
  "checkUpdateUSB ops c st =
     (let a = acq st; f = flt st
      in case c of
           settingMode None \<Rightarrow> Inr (st, False)
         | settingMode (Some m) \<Rightarrow> Inr (st\<lparr>acq := a\<lparr>mode := m\<rparr>\<rparr>, True)
         | settingOversamples n \<Rightarrow> Inr (st\<lparr>acq := a\<lparr>oversamples := n\<rparr>\<rparr>, True)
         | settingSize n \<Rightarrow> Inr (st\<lparr>acq := a\<lparr>bufLen := dataSize n\<rparr>\<rparr>, True)
         | settingSpectralFreq x \<Rightarrow> Inr (st, True)
         | settingProcessingFreq x \<Rightarrow>
             (let r = (if fless ops x (fint ops 1) then fint ops 1 else x);
                  f1 = f\<lparr>processingRate := r,
                         filterProperties := (\<lambda>k. (filterProperties f k)[5 := r])\<rparr>
              in case init_fir ops (filter_sel f1) (filterProperties f1 (filter_sel f1)) f1 of
                   Inl e \<Rightarrow> Inl e
                 | Inr f2 \<Rightarrow> Inr (st\<lparr>flt := f2\<rparr>, True))
         | settingSignalType None \<Rightarrow> Inr (st, False)
         | settingSignalType (Some t) \<Rightarrow> Inr (st\<lparr>acq := a\<lparr>signalType := t\<rparr>\<rparr>, True)
         | settingFilter None \<Rightarrow> Inr (st, False)
         | settingFilter (Some k) \<Rightarrow>
             (case select_filter ops k f of
                Inl e \<Rightarrow> Inl e
              | Inr f1 \<Rightarrow> Inr (st\<lparr>flt := f1\<rparr>, True))
         | settingFilterProperty1 x \<Rightarrow>
             (let f1 = resetHistory ops (set_property (filter_sel f) 0 x f);
                  f2 = (if filter_sel f1 = scaling
                        then f1\<lparr>scalingGain := filterProperties f1 (filter_sel f1) ! 0\<rparr> else f1)
              in case reinit ops False f2 of
                   Inl e \<Rightarrow> Inl e
                 | Inr (f3, ok) \<Rightarrow> Inr (st\<lparr>flt := f3\<rparr>, ok))
         | settingFilterProperty2 x \<Rightarrow>
             (case reinit ops False (set_property (filter_sel f) 1 x f) of
                Inl e \<Rightarrow> Inl e
              | Inr (f1, ok) \<Rightarrow> Inr (st\<lparr>flt := f1\<rparr>, ok))
         | settingFilterProperty3 n \<Rightarrow>
             (let Mfilter = min (tdiv (max n 0) 2) (int MfilterMax);
                  Nfilter = 2 * Mfilter + 1
              in case reinit ops True (set_property (filter_sel f) 2 (fint ops Nfilter) f) of
                   Inl e \<Rightarrow> Inl e
                 | Inr (f1, ok) \<Rightarrow> Inr (st\<lparr>flt := f1\<rparr>, True))
         | settingFilterProperty4 None \<Rightarrow> Inr (st, True)
         | settingFilterProperty4 (Some w) \<Rightarrow>
             (let f1 = set_property (filter_sel f) 3 (fint ops w) f
              in case init_fir ops (filter_sel f1) (filterProperties f1 (filter_sel f1)) f1 of
                   Inl e \<Rightarrow> Inl e
                 | Inr f2 \<Rightarrow> Inr (st\<lparr>flt := f2\<rparr>, True))
         | settingFilterProperty5 None \<Rightarrow> Inr (st, False)
         | settingFilterProperty5 (Some k) \<Rightarrow>
             Inr (st\<lparr>flt := set_property (filter_sel f) 4 (fint ops k) f\<rparr>, True)
         | commandRequest \<Rightarrow> Inr (st\<lparr>acq := a\<lparr>request := True\<rparr>\<rparr>, True)
         | INVALID \<Rightarrow> Inr (st, False))"

section \<open>Auxiliary notions for the statements\<close>

text \<open>
  While a buffer of \<open>L\<close> bytes is being filled, the write position is a multiple of 4
  between 0 and \<open>L\<close>, and \<open>full\<close> is set exactly when it has reached \<open>L\<close>.
\<close>

definition fill_inv :: "int \<Rightarrow> 'f acq \<Rightarrow> bool" where
  "fill_inv L s =
     (0 \<le> bufPos s \<and> 4 dvd bufPos s \<and> bufPos s \<le> L \<and> full s = (bufPos s = L)
      \<and> uint (bufLen s) = L \<and> length (bufAD4020 s) = maxLen \<and> oversamples s \<noteq> 0)"

definition stored_count :: "'o option list \<Rightarrow> nat" where
  "stored_count outs = length (filter (\<lambda>out. out \<noteq> None) outs)"

text \<open>The sketch as a whole, with given coefficient tables for the programmable filter.\<close>

definition sketch_init :: "'f farith \<Rightarrow> 'f list \<Rightarrow> 'f list \<Rightarrow> 'f sketch" where
  "sketch_init ops bs as = \<lparr> acq = acq_init ops, flt = filters_init ops bs as \<rparr>"

definition acq_two :: "real acq" where
  "acq_two = (acq_init exact)\<lparr>bufLen := 8, sampleStart := False\<rparr>"


definition acq_overfull :: "real acq" where
  "acq_overfull =
     (stored exact True
        (counted ((acq_init exact)\<lparr>bufLen := 0, sumAD4020 := 0, sampleStart := False\<rparr>) 5))
     \<lparr>wait := True\<rparr>"

definition sketch_demo :: "real sketch" where
  "sketch_demo = sketch_init exact [1] [1, 0]"

text \<open>
  The main loop receives commands while the processing tick runs the filter switch.
  \<open>run\<close> applies commands and ticks in a given order and collects the filter outputs.
\<close>

datatype 'f event = Host "'f command" | Tick 'f "32 word"

fun run :: "'f farith \<Rightarrow> 'f event list \<Rightarrow> 'f sketch \<Rightarrow> fault + ('f sketch \<times> 'f list)" where
  "run ops [] st = Inr (st, [])"
| "run ops (Host c # es) st =
     (case checkUpdateUSB ops c st of
        Inl e \<Rightarrow> Inl e
      | Inr (st1, ok) \<Rightarrow> run ops es st1)"
| "run ops (Tick x r # es) st =
     (case process ops x r (flt st) of
        Inl e \<Rightarrow> Inl e
      | Inr (y, f1) \<Rightarrow>
          (case run ops es (st\<lparr>flt := f1\<rparr>) of
             Inl e \<Rightarrow> Inl e
           | Inr (st2, ys) \<Rightarrow> Inr (st2, y # ys)))"

definition outputs :: "'f farith \<Rightarrow> 'f event list \<Rightarrow> 'f sketch \<Rightarrow> fault + 'f list" where
  "outputs ops es st = (case run ops es st of Inl e \<Rightarrow> Inl e | Inr (st', ys) \<Rightarrow> Inr ys)"




section \<open>The FIR filter of the lock-in amplifier\<close>



























section \<open>Truncating division\<close>

lemma tdiv_nonneg: "0 \<le> a \<Longrightarrow> 0 < b \<Longrightarrow> tdiv a b = a div b"
  by (simp add: tdiv_def)

lemma tdiv_neg: "a < 0 \<Longrightarrow> 0 < b \<Longrightarrow> tdiv a b = - ((- a) div b)"
  by (simp add: tdiv_def)

lemma tdiv_small: "\<bar>a\<bar> < b \<Longrightarrow> tdiv a b = 0"
  by (simp add: tdiv_def)

lemma tdiv_sgn: "0 < b \<Longrightarrow> tdiv a b = sgn a * (\<bar>a\<bar> div b)"
  by (cases "a < 0"; cases "a = 0") (simp_all add: tdiv_def)

section \<open>One tick of the spectral read\<close>

lemma store_value_stored:
  assumes "oversamples s \<noteq> 0" and "0 \<le> bufPos s"
    and "nat (bufPos s) + 3 < length (bufAD4020 s)"
  shows "store_value ops adv s = Inr (stored ops adv s, Some (convert ops (average s)))"
  using assms by (simp add: store_value_def stored_def Let_def average_def)

lemma convert_cong:
  "signalType s = signalType t \<Longrightarrow> sumAD4020 s = sumAD4020 t \<Longrightarrow>
   gainAD4020 s = gainAD4020 t \<Longrightarrow> offsetAD4020 s = offsetAD4020 t \<Longrightarrow>
   convert ops s = convert ops t"
  by (simp add: convert_def split: sigtype.splits)

lemma spectralRead_basic_full: "full s \<Longrightarrow> spectralRead_basic ops val s = Inr (s, None)"
  by (simp add: spectralRead_basic_def)

lemma spectralRead_full: "full s \<Longrightarrow> spectralRead ops val s = Inr (s, None)"
  by (simp add: spectralRead_def)


lemma spectralRead_basic_due:
  assumes "oversamples s \<noteq> 0" and "\<not> full s" and "\<not> sampleStart s"
    and "oversamples s \<le> samples s + 1"
    and "0 \<le> bufPos s" and "nat (bufPos s) + 3 < length (bufAD4020 s)"
  shows "spectralRead_basic ops val s =
            Inr ((stored ops True (counted s val))\<lparr>wait := wait s\<rparr>,
                 Some (convert ops (average (counted s val))))"
proof -
  have "store_value ops True (counted s val) =
          Inr (stored ops True (counted s val), Some (convert ops (average (counted s val))))"
    using assms by (intro store_value_stored) (simp_all add: counted_def)
  then show ?thesis
    using assms by (simp add: spectralRead_basic_def Let_def counted_def)
qed

lemma spectralRead_due:
  assumes "oversamples s \<noteq> 0" and "\<not> full s" and "\<not> sampleStart s"
    and "\<not> pulse_discard s"
    and "oversamples s \<le> samples s + 1"
    and "0 \<le> bufPos s" and "nat (bufPos s) + 3 < length (bufAD4020 s)"
  shows "spectralRead ops val s =
            Inr (stored ops (mode s = spectral \<or> \<not> wait s)
                   ((counted s val)\<lparr>ADready := (if mode s \<noteq> spectral \<and> ADready s = 1 then 2 else ADready s)\<rparr>),
                 Some (convert ops (average (counted s val))))"
proof -
  let ?s3 = "(counted s val)\<lparr>ADready := (if mode s \<noteq> spectral \<and> ADready s = 1 then 2 else ADready s)\<rparr>"
  let ?adv = "mode s = spectral \<or> \<not> wait s"
  have c: "convert ops (average ?s3) = convert ops (average (counted s val))"
    by (rule convert_cong) (simp_all add: average_def counted_def)
  have "store_value ops ?adv ?s3 = Inr (stored ops ?adv ?s3, Some (convert ops (average ?s3)))"
    using assms by (intro store_value_stored) (simp_all add: counted_def)
  then show ?thesis
    using assms c by (auto simp add: spectralRead_def Let_def counted_def pulse_discard_def)
qed

lemma spectralRead_basic_start:
  "\<not> full s \<Longrightarrow> sampleStart s \<Longrightarrow>
   spectralRead_basic ops val s = Inr (s\<lparr>sumAD4020 := 0, sampleStart := False\<rparr>, None)"
  by (simp add: spectralRead_basic_def)


lemma spectralRead_basic_count:
  "\<not> full s \<Longrightarrow> \<not> sampleStart s \<Longrightarrow> samples s + 1 < oversamples s \<Longrightarrow>
   spectralRead_basic ops val s =
     Inr (s\<lparr>sumAD4020 := sumAD4020 s + val, samples := samples s + 1\<rparr>, None)"
  by (simp add: spectralRead_basic_def)








section \<open>The accumulator\<close>




text \<open>
  Claim C10. When the oversample count \<open>N \<ge> 1\<close> is reached, the value stored is the
  conversion of the integer \<open>q = sgn a * (\<bar>a\<bar> div N)\<close>, where \<open>a\<close> is the accumulated sum
  with the current raw value: the quotient of \<open>a\<close> by \<open>N\<close> truncated towards zero, so
  \<open>\<bar>q\<bar> * N \<le> \<bar>a\<bar> < (\<bar>q\<bar> + 1) * N\<close>. For the raw signal the stored value is the
  conversion of \<open>q\<close> itself. If \<open>\<bar>a\<bar> < N\<close> then \<open>q = 0\<close>.
\<close>

theorem oversample_mean_truncates:
  assumes "1 \<le> oversamples s" and "\<not> full s" and "\<not> sampleStart s"
    and "oversamples s \<le> samples s + 1"
    and "0 \<le> bufPos s" and "nat (bufPos s) + 3 < length (bufAD4020 s)"
  shows "let a = sumAD4020 s + val; N = oversamples s; q = sgn a * (\<bar>a\<bar> div N) in
           (case spectralRead_basic ops val s of
              Inl e \<Rightarrow> False
            | Inr (s', out) \<Rightarrow> out = Some (convert ops (s\<lparr>sumAD4020 := q\<rparr>)))
         \<and> (\<not> pulse_discard s \<longrightarrow>
              (case spectralRead ops val s of
                 Inl e \<Rightarrow> False
               | Inr (s', out) \<Rightarrow> out = Some (convert ops (s\<lparr>sumAD4020 := q\<rparr>))))
         \<and> convert ops (s\<lparr>sumAD4020 := q, signalType := signalRaw\<rparr>) = fint ops q
         \<and> \<bar>q\<bar> * N \<le> \<bar>a\<bar> \<and> \<bar>a\<bar> < (\<bar>q\<bar> + 1) * N
         \<and> (\<bar>a\<bar> < N \<longrightarrow> q = 0)"
proof -
  let ?a = "sumAD4020 s + val"
  let ?N = "oversamples s"
  let ?q = "sgn ?a * (\<bar>?a\<bar> div ?N)"
  have N: "0 < ?N" using assms by simp
  have q: "tdiv ?a ?N = ?q" using N by (simp add: tdiv_sgn)
  have c: "convert ops (average (counted s val)) = convert ops (s\<lparr>sumAD4020 := ?q\<rparr>)"
    by (rule convert_cong) (simp_all add: average_def counted_def q [symmetric])
  have 1: "spectralRead_basic ops val s =
             Inr ((stored ops True (counted s val))\<lparr>wait := wait s\<rparr>,
                  Some (convert ops (s\<lparr>sumAD4020 := ?q\<rparr>)))"
    using assms spectralRead_basic_due [of s ops val] c by simp
  have 2: "\<not> pulse_discard s \<Longrightarrow> spectralRead ops val s =
             Inr (stored ops (mode s = spectral \<or> \<not> wait s)
                   ((counted s val)\<lparr>ADready := (if mode s \<noteq> spectral \<and> ADready s = 1 then 2 else ADready s)\<rparr>),
                  Some (convert ops (s\<lparr>sumAD4020 := ?q\<rparr>)))"
    using assms spectralRead_due [of s ops val] c by simp
  have absq: "\<bar>?q\<bar> = \<bar>?a\<bar> div ?N"
    using N by (cases "?a = 0") (simp_all add: abs_mult pos_imp_zdiv_nonneg_iff)
  have dm: "\<bar>?a\<bar> = \<bar>?q\<bar> * ?N + \<bar>?a\<bar> mod ?N"
    unfolding absq by simp
  have m: "0 \<le> \<bar>?a\<bar> mod ?N" "\<bar>?a\<bar> mod ?N < ?N"
    using N by simp_all
  have 3: "\<bar>?q\<bar> * ?N \<le> \<bar>?a\<bar>"
    using dm m by linarith
  have 4: "\<bar>?a\<bar> < (\<bar>?q\<bar> + 1) * ?N"
    using dm m by (simp add: distrib_right)
  have 5: "\<bar>?a\<bar> < ?N \<Longrightarrow> ?q = 0"
    by simp
  have 6: "convert ops (s\<lparr>sumAD4020 := ?q, signalType := signalRaw\<rparr>) = fint ops ?q"
    by (simp add: convert_def)
  show ?thesis
    unfolding Let_def using 1 2 3 4 5 6 by simp
qed

theorem oversample_mean_truncates_witness:
  "1 \<le> oversamples acq_demo \<and> \<not> full acq_demo \<and> \<not> sampleStart acq_demo
   \<and> oversamples acq_demo \<le> samples acq_demo + 1
   \<and> 0 \<le> bufPos acq_demo \<and> nat (bufPos acq_demo) + 3 < length (bufAD4020 acq_demo)
   \<and> (case spectralRead_basic exact (- 1) acq_demo of
         Inl e \<Rightarrow> False
       | Inr (s', out) \<Rightarrow> out = Some (- 1))"
proof -
  have h: "1 \<le> oversamples acq_demo" "\<not> full acq_demo" "\<not> sampleStart acq_demo"
    "oversamples acq_demo \<le> samples acq_demo + 1"
    "0 \<le> bufPos acq_demo" "nat (bufPos acq_demo) + 3 < length (bufAD4020 acq_demo)"
    by (simp_all add: acq_demo_def acq_init_def maxLen_def)
  have c: "convert exact (acq_demo\<lparr>sumAD4020 := sgn (sumAD4020 acq_demo + - 1) *
             (\<bar>sumAD4020 acq_demo + - 1\<bar> div oversamples acq_demo)\<rparr>) = - 1"
    by (simp add: convert_def acq_demo_def acq_init_def exact_def)
  from oversample_mean_truncates [OF h, of "- 1" exact] c
  have "case spectralRead_basic exact (- 1) acq_demo of
         Inl e \<Rightarrow> False
       | Inr (s', out) \<Rightarrow> out = Some (- 1)"
    by (auto simp add: Let_def split: sum.splits)
  with h show ?thesis by blast
qed


section \<open>The hand-off to the host\<close>

text \<open>
  Claim C5. While the buffer is not full \<open>sendDataToPC\<close> does nothing. Once it is full,
  \<open>sendDataToPC\<close> resets the write position, clears \<open>full\<close> and sets \<open>sampleStart\<close>; it
  hands the first \<open>bufLen\<close> bytes to the transport exactly if a request was pending and
  then clears the request, otherwise nothing is transmitted. The tick does not wait for
  the buffer to be drained: while \<open>full\<close> is set it returns at once without a change.
\<close>

theorem handoff_drops_or_sends:
  "(\<not> full s \<longrightarrow> sendDataToPC s = (s, None) \<and> sendDataToPC_basic s = (s, None))
   \<and> (full s \<longrightarrow>
        (case sendDataToPC s of (s', tx) \<Rightarrow>
           bufPos s' = 0 \<and> \<not> full s' \<and> sampleStart s' \<and> \<not> request s'
           \<and> bufAD4020 s' = bufAD4020 s \<and> bufLen s' = bufLen s
           \<and> tx = (if request s then Some (take (unat (bufLen s)) (bufAD4020 s)) else None))
      \<and> (case sendDataToPC_basic s of (s', tx) \<Rightarrow>
           bufPos s' = 0 \<and> \<not> full s' \<and> sampleStart s' \<and> \<not> request s'
           \<and> bufAD4020 s' = bufAD4020 s \<and> bufLen s' = bufLen s
           \<and> tx = (if request s then Some (take (unat (bufLen s)) (bufAD4020 s)) else None))
      \<and> spectralRead ops val s = Inr (s, None)
      \<and> spectralRead_basic ops val s = Inr (s, None))"
  by (simp add: sendDataToPC_def sendDataToPC_basic_def Let_def spectralRead_full
        spectralRead_basic_full)


theorem handoff_drops_or_sends_witness:
  "full acq_ready \<and> request acq_ready
   \<and> (case sendDataToPC acq_ready of (s', tx) \<Rightarrow>
         bufPos s' = 0 \<and> \<not> full s' \<and> \<not> request s' \<and> tx = Some (replicate 400 0))
   \<and> spectralRead exact 7 acq_ready = Inr (acq_ready, None)
   \<and> \<not> full (acq_init exact)
   \<and> sendDataToPC (acq_init exact) = (acq_init exact, None)"
proof -
  have f: "full acq_ready" "request acq_ready" "\<not> full (acq_init exact)"
    "take (unat (bufLen acq_ready)) (bufAD4020 acq_ready) = replicate 400 0"
    by (simp_all add: acq_ready_def acq_init_def maxLen_def)
  from handoff_drops_or_sends [of acq_ready exact 7] handoff_drops_or_sends [of "acq_init exact" exact 7] f
  show ?thesis
    by (auto split: prod.splits)
qed

section \<open>The capture buffer\<close>

lemma store_bytes_length: "length (store_bytes b p w) = length b"
  by (simp add: store_bytes_def)

lemma stored_more_fields:
  "bufLen (stored ops adv s) = bufLen s" "oversamples (stored ops adv s) = oversamples s"
  "length (bufAD4020 (stored ops adv s)) = length (bufAD4020 s)"
  "bufPos (stored ops adv s) = (if adv then bufPos s + 4 else bufPos s)"
  "full (stored ops adv s) = (full s \<or> uint (bufLen s) \<le> (if adv then bufPos s + 4 else bufPos s) mod 2 ^ 32)"
  by (simp_all add: stored_def Let_def store_bytes_length)

lemma fill_step:
  assumes inv: "fill_inv L s" and L: "4 \<le> L" "4 dvd L" "L \<le> int maxLen"
  shows "\<exists>s' out. spectralRead_basic ops v s = Inr (s', out) \<and> fill_inv L s'
           \<and> bufPos s' = bufPos s + (if out = None then 0 else 4)"
proof (cases "full s")
  case True
  then show ?thesis using inv by (simp add: spectralRead_basic_full)
next
  case nf: False
  show ?thesis
  proof (cases "sampleStart s")
    case True
    then show ?thesis
      using nf inv by (simp add: spectralRead_basic_start fill_inv_def)
  next
    case ns: False
    show ?thesis
    proof (cases "samples s + 1 < oversamples s")
      case True
      then show ?thesis
        using nf ns inv by (simp add: spectralRead_basic_count fill_inv_def)
    next
      case False
      from inv nf have lt: "bufPos s < L" "0 \<le> bufPos s" "4 dvd bufPos s"
        by (auto simp add: fill_inv_def)
      from lt L have le: "bufPos s + 4 \<le> L"
        by (elim dvdE) auto
      have m: "(bufPos s + 4) mod 2 ^ 32 = bufPos s + 4"
        using lt le L by (simp add: maxLen_def)
      have b: "nat (bufPos s) + 3 < length (bufAD4020 s)"
        using inv le L lt by (simp add: fill_inv_def)
      have "spectralRead_basic ops v s =
            Inr ((stored ops True (counted s v))\<lparr>wait := wait s\<rparr>,
                 Some (convert ops (average (counted s v))))"
        using False nf ns inv lt b by (intro spectralRead_basic_due) (simp_all add: fill_inv_def)
      moreover have "fill_inv L ((stored ops True (counted s v))\<lparr>wait := wait s\<rparr>)"
        using inv nf lt le m
        by (auto simp add: fill_inv_def stored_more_fields counted_def)
      moreover have "bufPos ((stored ops True (counted s v))\<lparr>wait := wait s\<rparr>) = bufPos s + 4"
        by (simp add: stored_more_fields counted_def)
      ultimately show ?thesis by simp
    qed
  qed
qed

lemma fill_run:
  assumes L: "4 \<le> L" "4 dvd L" "L \<le> int maxLen"
  shows "fill_inv L s \<Longrightarrow>
         \<exists>s' outs. ticks (spectralRead_basic ops) vs s = Inr (s', outs) \<and> fill_inv L s'
           \<and> bufPos s' = bufPos s + 4 * int (stored_count outs)"
proof (induction vs arbitrary: s)
  case Nil
  then show ?case by (simp add: stored_count_def)
next
  case (Cons v vs)
  from fill_step [OF Cons.prems L, of ops v]
  obtain s1 out where 1: "spectralRead_basic ops v s = Inr (s1, out)" "fill_inv L s1"
    "bufPos s1 = bufPos s + (if out = None then 0 else 4)"
    by blast
  from Cons.IH [OF 1(2)]
  obtain s2 outs where 2: "ticks (spectralRead_basic ops) vs s1 = Inr (s2, outs)" "fill_inv L s2"
    "bufPos s2 = bufPos s1 + 4 * int (stored_count outs)"
    by blast
  show ?case
    using 1 2 by (simp add: stored_count_def)
qed

lemma full_run:
  "full s \<Longrightarrow> ticks (spectralRead_basic ops) vs s = Inr (s, replicate (length vs) None)"
  by (induction vs) (simp_all add: spectralRead_basic_full)










text \<open>
  Claim C4, amended. Let the configured buffer length be a multiple of 4 between 4 and
  \<open>maxLen\<close>, and let the ticks of \<open>spectralRead\<close> run on any raw values from an empty
  buffer. Then no tick faults, the write position is 4 times the number of records stored
  and never exceeds the buffer length, and \<open>full\<close> is set exactly when it equals the
  buffer length, that is when exactly \<open>bufLen\<close> bytes have been written. Once \<open>full\<close> is
  set every further tick returns without a change, so nothing more is written and the
  flag is not set a second time, until \<open>sendDataToPC\<close> resets the position and clears the
  flag; while \<open>full\<close> is clear \<open>sendDataToPC\<close> changes nothing.
\<close>

theorem buffer_fill_cycle:
  assumes "4 \<le> uint (bufLen s)" and "4 dvd uint (bufLen s)" and "uint (bufLen s) \<le> int maxLen"
    and "length (bufAD4020 s) = maxLen" and "bufPos s = 0" and "\<not> full s"
    and "oversamples s \<noteq> 0"
  shows "case ticks (spectralRead_basic ops) vs s of
           Inl e \<Rightarrow> False
         | Inr (s', outs) \<Rightarrow>
             bufPos s' = 4 * int (stored_count outs)
           \<and> bufPos s' \<le> uint (bufLen s)
           \<and> full s' = (bufPos s' = uint (bufLen s))
           \<and> (full s' \<longrightarrow>
                ticks (spectralRead_basic ops) ws s' = Inr (s', replicate (length ws) None)
              \<and> bufPos (fst (sendDataToPC_basic s')) = 0
              \<and> \<not> full (fst (sendDataToPC_basic s')))
           \<and> (\<not> full s' \<longrightarrow> sendDataToPC_basic s' = (s', None))"
proof -
  have "fill_inv (uint (bufLen s)) s"
    using assms by (simp add: fill_inv_def)
  from fill_run [OF assms(1-3) this, of ops vs]
  obtain s' outs where r: "ticks (spectralRead_basic ops) vs s = Inr (s', outs)"
    "fill_inv (uint (bufLen s)) s'" "bufPos s' = bufPos s + 4 * int (stored_count outs)"
    by blast
  then show ?thesis
    using assms by (simp add: fill_inv_def full_run sendDataToPC_basic_def Let_def)
qed
theorem buffer_fill_cycle_witness:
  "4 \<le> uint (bufLen acq_two) \<and> 4 dvd uint (bufLen acq_two)
   \<and> uint (bufLen acq_two) \<le> int maxLen \<and> length (bufAD4020 acq_two) = maxLen
   \<and> bufPos acq_two = 0 \<and> \<not> full acq_two \<and> oversamples acq_two \<noteq> 0
   \<and> (case ticks (spectralRead_basic exact) [1, 2, 3] acq_two of
         Inl e \<Rightarrow> False
       | Inr (s', outs) \<Rightarrow>
           bufPos s' = 4 * int (stored_count outs) \<and> bufPos s' \<le> 8 \<and> full s' = (bufPos s' = 8))"
proof -
  have h: "4 \<le> uint (bufLen acq_two)" "4 dvd uint (bufLen acq_two)"
    "uint (bufLen acq_two) \<le> int maxLen" "length (bufAD4020 acq_two) = maxLen"
    "bufPos acq_two = 0" "\<not> full acq_two" "oversamples acq_two \<noteq> 0"
    by (simp_all add: acq_two_def acq_init_def maxLen_def)
  have u: "uint (bufLen acq_two) = 8"
    by (simp add: acq_two_def)
  from buffer_fill_cycle [OF h, where ops = exact and vs = "[1, 2, 3]" and ws = "[]"] u
  have "case ticks (spectralRead_basic exact) [1, 2, 3] acq_two of
         Inl e \<Rightarrow> False
       | Inr (s', outs) \<Rightarrow>
           bufPos s' = 4 * int (stored_count outs) \<and> bufPos s' \<le> 8 \<and> full s' = (bufPos s' = 8)"
    by (auto split: sum.splits)
  with h show ?thesis by blast
qed


text \<open>
  The claim as stated, for every configured buffer length, fails for the length 0, which
  the command \<open>set dataSize 0\<close> configures: the fullness test follows the store, so one
  record of 4 bytes is written before \<open>full\<close> is set.
\<close>

theorem buffer_fill_cycle_counterexample:
  "checkUpdateUSB exact (settingSize 0) sketch_demo
     = Inr (sketch_demo\<lparr>acq := (acq sketch_demo)\<lparr>bufLen := 0\<rparr>\<rparr>, True)
   \<and> ticks (spectralRead_basic exact) [5, 5] ((acq sketch_demo)\<lparr>bufLen := 0\<rparr>)
     = Inr (acq_overfull, [None, Some (voltageAD4020 acq_overfull)])
   \<and> uint (bufLen acq_overfull) = 0 \<and> bufPos acq_overfull = 4 \<and> full acq_overfull"
proof -
  let ?a = "(acq_init exact)\<lparr>bufLen := 0\<rparr>"
  let ?b = "(acq_init exact)\<lparr>bufLen := 0, sumAD4020 := 0, sampleStart := False\<rparr>"
  have c: "checkUpdateUSB exact (settingSize 0) sketch_demo
             = Inr (sketch_demo\<lparr>acq := (acq sketch_demo)\<lparr>bufLen := 0\<rparr>\<rparr>, True)"
    by (simp add: checkUpdateUSB_def dataSize_def Let_def maxLen_def)
  have a: "(acq sketch_demo)\<lparr>bufLen := 0\<rparr> = ?a"
    by (simp add: sketch_demo_def sketch_init_def)
  have 1: "spectralRead_basic exact 5 ?a = Inr (?b, None)"
    using spectralRead_basic_start [of ?a exact 5] by (simp add: acq_init_def)
  have 2: "spectralRead_basic exact 5 ?b =
           Inr ((stored exact True (counted ?b 5))\<lparr>wait := wait ?b\<rparr>,
                Some (convert exact (average (counted ?b 5))))"
    by (intro spectralRead_basic_due) (simp_all add: acq_init_def maxLen_def)
  have w: "(stored exact True (counted ?b 5))\<lparr>wait := wait ?b\<rparr> = acq_overfull"
    by (simp add: acq_overfull_def acq_init_def)
  have v: "voltageAD4020 acq_overfull = convert exact (average (counted ?b 5))"
    by (simp add: acq_overfull_def stored_def Let_def)
  have f: "uint (bufLen acq_overfull) = 0" "bufPos acq_overfull = 4" "full acq_overfull"
    by (simp_all add: acq_overfull_def stored_more_fields counted_def) (simp_all add: acq_init_def)
  have 3: "spectralRead_basic exact 5 ?b = Inr (acq_overfull, Some (voltageAD4020 acq_overfull))"
    by (simp only: 2 w v)
  have t: "ticks (spectralRead_basic exact) [5, 5] ?a
             = Inr (acq_overfull, [None, Some (voltageAD4020 acq_overfull)])"
    by (simp add: 1 3)
  show ?thesis
    using f c t by (simp only: a)
qed






section \<open>Scaling\<close>

lemma div_floor: "(a :: int) div 2 ^ 32 = \<lfloor>real_of_int a / 2 ^ 32\<rfloor>"
proof -
  have "\<lfloor>real_of_int a / real_of_int (2 ^ 32)\<rfloor> = a div 2 ^ 32"
    by (rule floor_divide_of_int_eq)
  then show ?thesis by simp
qed

lemma sint_scale:
  fixes v :: "32 word" and k :: "64 word"
  assumes "- (2 ^ 63) \<le> sint v * sint k" and "sint v * sint k < 2 ^ 63"
  shows "sint (signed_drop_bit 32 ((scast v :: 64 word) * k)) = (sint v * sint k) div 2 ^ 32"
proof -
  have up: "sint (scast v :: 64 word) = sint v"
    by (rule sint_up_scast) (simp add: is_up)
  have "sint ((scast v :: 64 word) * k) = signed_take_bit 63 (sint v * sint k)"
    by (simp add: sint_word_mult up)
  also have "\<dots> = sint v * sint k"
    using assms by (simp add: signed_take_bit_int_eq_self)
  finally have m: "sint ((scast v :: 64 word) * k) = sint v * sint k" .
  show ?thesis
    by (simp add: sint_signed_drop_bit_eq m drop_bit_eq_div)
qed


text \<open>
  Claim C8, amended. The float path of the scaling filter returns the single product
  \<open>value * props[0]\<close>; in arithmetic without rounding the factor 2 maps 0.1, 0.2 and -0.3 to
  0.2, 0.4 and -0.6. The integer path returns the conversion of \<open>(x * k_fixed) >> 32\<close>
  computed in 64 bits. Whenever the product \<open>x * k_fixed\<close> fits into 64 bits this is the
  quotient of the product by \<open>2^32\<close> rounded down, which for \<open>k_fixed = k * 2^32\<close> lies in
  the interval from \<open>k * x - 1\<close> (excluded) to \<open>k * x\<close>.
\<close>

theorem scale_paths:
  fixes v :: "32 word" and ps :: "64 word list"
  shows "proc_scale ops x props = fmul ops x (props ! 0)
       \<and> map (\<lambda>x. proc_scale exact x [2, 0, 0, 0, 0, 0]) [1 / 10, 2 / 10, - 3 / 10]
           = [2 / 10, 4 / 10, - 6 / 10]
       \<and> proc_scale_int ops v ps = fint ops (sint (signed_drop_bit 32 ((scast v :: 64 word) * ps ! 0)))
       \<and> (- (2 ^ 63) \<le> sint v * sint (ps ! 0) \<and> sint v * sint (ps ! 0) < 2 ^ 63 \<longrightarrow>
            proc_scale_int ops v ps = fint ops ((sint v * sint (ps ! 0)) div 2 ^ 32)
          \<and> (\<forall>k :: real. real_of_int (sint (ps ! 0)) = k * 2 ^ 32 \<longrightarrow>
                k * real_of_int (sint v) - 1 < real_of_int ((sint v * sint (ps ! 0)) div 2 ^ 32)
              \<and> real_of_int ((sint v * sint (ps ! 0)) div 2 ^ 32) \<le> k * real_of_int (sint v)))"
proof -
  have 1: "map (\<lambda>x. proc_scale exact x [2, 0, 0, 0, 0, 0]) [1 / 10, 2 / 10, - 3 / 10]
           = [2 / 10, 4 / 10, - 6 / 10]"
    by (simp add: proc_scale_def exact_def)
  have 2: "k * real_of_int (sint v) - 1 < real_of_int ((sint v * sint (ps ! 0)) div 2 ^ 32)
         \<and> real_of_int ((sint v * sint (ps ! 0)) div 2 ^ 32) \<le> k * real_of_int (sint v)"
    if "real_of_int (sint (ps ! 0)) = k * 2 ^ 32" for k :: real
  proof -
    have e: "real_of_int (sint v * sint (ps ! 0)) / 2 ^ 32 = k * real_of_int (sint v)"
      using that by simp
    have f: "(sint v * sint (ps ! 0)) div 2 ^ 32 = \<lfloor>real_of_int (sint v * sint (ps ! 0)) / 2 ^ 32\<rfloor>"
      by (rule div_floor)
    show ?thesis
      unfolding f e by linarith
  qed
  show ?thesis
    using 1 2 by (simp add: proc_scale_def proc_scale_int_def sint_scale)
qed

theorem scale_paths_witness:
  "- (2 ^ 63) \<le> sint (- 7 :: 32 word) * sint (2 ^ 31 :: 64 word)
   \<and> sint (- 7 :: 32 word) * sint (2 ^ 31 :: 64 word) < 2 ^ 63
   \<and> real_of_int (sint (2 ^ 31 :: 64 word)) = (1 / 2) * 2 ^ 32
   \<and> proc_scale_int exact (- 7) [2 ^ 31] = - 4
   \<and> (1 / 2) * real_of_int (sint (- 7 :: 32 word)) - 1 < - 4
   \<and> (- 4 :: real) \<le> (1 / 2) * real_of_int (sint (- 7 :: 32 word))"
proof -
  have h: "- (2 ^ 63) \<le> sint (- 7 :: 32 word) * sint (2 ^ 31 :: 64 word)
    \<and> sint (- 7 :: 32 word) * sint (2 ^ 31 :: 64 word) < 2 ^ 63"
    by simp
  have k: "real_of_int (sint (2 ^ 31 :: 64 word)) = (1 / 2) * 2 ^ 32"
    by simp
  have d: "(sint (- 7 :: 32 word) * sint (2 ^ 31 :: 64 word)) div 2 ^ 32 = - 4"
    by simp
  from scale_paths [where ops = exact and v = "- 7" and ps = "[2 ^ 31]"] h k
  have "proc_scale_int exact (- 7) [2 ^ 31] = fint exact (- 4)
      \<and> (1 / 2) * real_of_int (sint (- 7 :: 32 word)) - 1 < real_of_int (- 4)
      \<and> real_of_int (- 4) \<le> (1 / 2) * real_of_int (sint (- 7 :: 32 word))"
    unfolding d [symmetric] by (metis nth_Cons_0)
  then show ?thesis using h k by (simp add: exact_def)
qed

text \<open>
  The claim as stated, for every input and factor, fails where the product overflows:
  for the factor 2 and the input \<open>2^30\<close> the integer path returns \<open>- 2^31\<close>.
\<close>

theorem scale_paths_counterexample:
  "proc_scale_int exact (2 ^ 30) [2 ^ 33] = - (2 ^ 31)
   \<and> real_of_int (sint (2 ^ 33 :: 64 word)) = 2 * 2 ^ 32
   \<and> \<not> (2 * real_of_int (sint (2 ^ 30 :: 32 word)) - 1 < proc_scale_int exact (2 ^ 30) [2 ^ 33])"
  by (simp add: proc_scale_int_def exact_def)


section \<open>Moving average\<close>

lemma avg_loop_overrun:
  assumes "0 \<le> idb" and "idb < int Nmax" and "length buf = Nmax"
    and "\<And>i. 0 \<le> i \<Longrightarrow> i \<le> idb + int Nmax + 1 \<Longrightarrow> below i"
  shows "0 \<le> i \<Longrightarrow> i \<le> idb + int Nmax + 1 \<Longrightarrow> avg_loop below ops buf idb i acc = Inl OutOfBounds"
proof (induction "nat (idb + int Nmax + 1 - i)" arbitrary: i acc)
  case 0
  then have i: "i = idb + int Nmax + 1" by simp
  have "below i" using 0 assms(4) by simp
  then show ?case
    using assms(1-3) by (subst avg_loop.simps) (simp add: i Let_def)
next
  case (Suc n)
  then have lt: "i \<le> idb + int Nmax" by simp
  have b: "below i" using Suc.prems assms(4) by simp
  have r: "avg_loop below ops buf idb (i + 1) acc' = Inl OutOfBounds" for acc'
    using Suc.hyps(2) Suc.prems lt by (intro Suc.hyps(1)) simp_all
  show ?case
    by (subst avg_loop.simps) (simp add: b r Let_def)
qed

lemma avg_loop_safe:
  assumes "0 \<le> idb" and "idb < int Nmax" and "length buf = Nmax" and "n \<le> int Nmax"
  shows "0 \<le> i \<Longrightarrow> \<exists>y. avg_loop (\<lambda>i. i < n) ops buf idb i acc = Inr y"
proof (induction "nat (n - i)" arbitrary: i acc)
  case 0
  then have "\<not> i < n" by simp
  then show ?case by (subst avg_loop.simps) simp
next
  case (Suc k)
  then have lt: "i < n" by simp
  have r: "\<exists>y. avg_loop (\<lambda>i. i < n) ops buf idb (i + 1) acc' = Inr y" for acc'
    using Suc.hyps(2) Suc.prems by (intro Suc.hyps(1)) simp_all
  show ?case
    using lt assms Suc.prems r by (subst avg_loop.simps) (auto simp add: Let_def)
qed

lemma clamp_samples_range: "1 \<le> clamp_samples n \<and> clamp_samples n \<le> int Nmax"
  by (simp add: clamp_samples_def Let_def Nmax_def)

lemma proc_avg_basic_safe:
  assumes "0 \<le> idbuffer s" and "idbuffer s < int Nmax" and "length (dbuffer s) = Nmax"
  shows "\<exists>avg s'. proc_avg_basic ops val n s = Inr (fdiv ops avg (fint ops (clamp_samples n)), s')
           \<and> 0 \<le> idbuffer s' \<and> idbuffer s' < int Nmax \<and> length (dbuffer s') = Nmax"
proof -
  let ?buf = "(dbuffer s)[nat (idbuffer s) := val]"
  from avg_loop_safe [of "idbuffer s" ?buf "clamp_samples n" 0 ops "fint ops 0"] assms
    clamp_samples_range [of n]
  obtain y where "avg_loop (\<lambda>i. i < clamp_samples n) ops ?buf (idbuffer s) 0 (fint ops 0) = Inr y"
    by auto
  then show ?thesis
    using assms by (auto simp add: proc_avg_basic_def Let_def Nmax_def)
qed


text \<open>
  Claim C6. The claim holds for \<open>proc_avg\<close> in the sketch without properties array
  (\<open>proc_avg_basic_safe\<close>: the divisor is between 1 and \<open>Nmax\<close> and no read leaves the
  ring buffer). \<open>proc_avg\<close> with the properties array, which the filter switch calls, uses
  \<open>props[0]\<close> as it is: after the commands that select the moving average and set its
  first property to 300, the first tick reads outside the ring buffer.
\<close>

theorem proc_avg_unclamped:
  "outputs exact [Host (settingFilter (Some movingAvg)), Host (settingFilterProperty1 300), Tick 1 0]
     sketch_demo = Inl OutOfBounds
   \<and> proc_avg exact 1 [300, 0, 0, 0, 0, 0] (flt sketch_demo) = Inl OutOfBounds
   \<and> (\<exists>avg s'. proc_avg_basic exact 1 300 (flt sketch_demo) = Inr (avg / 256, s'))"
proof -
  let ?f = "flt sketch_demo"
  let ?buf = "(dbuffer ?f)[nat (idbuffer ?f) := 1]"
  have i: "idbuffer ?f = 0" "length (dbuffer ?f) = Nmax"
    by (simp_all add: sketch_demo_def sketch_init_def filters_init_def Let_def)
  have loop: "avg_loop (\<lambda>i. fless exact (fint exact i) 300) exact ?buf 0 0 (fint exact 0) = Inl OutOfBounds"
    by (rule avg_loop_overrun) (simp_all add: i exact_def Nmax_def)
  have a: "proc_avg exact 1 (p300 # ps) g = Inl OutOfBounds"
    if "p300 = 300" "idbuffer g = 0" "dbuffer g = dbuffer ?f" for p300 ps g
    using loop that by (simp add: proc_avg_def i Let_def Nmax_def)
  have 1: "checkUpdateUSB exact (settingFilter (Some movingAvg)) sketch_demo =
           Inr (sketch_demo\<lparr>flt := ?f\<lparr>filter_sel := movingAvg\<rparr>\<rparr>, True)"
    by (simp add: checkUpdateUSB_def select_filter_def Let_def)
  let ?g = "resetHistory exact (set_property movingAvg 0 300 (?f\<lparr>filter_sel := movingAvg\<rparr>))"
  have 2: "checkUpdateUSB exact (settingFilterProperty1 300) (sketch_demo\<lparr>flt := ?f\<lparr>filter_sel := movingAvg\<rparr>\<rparr>) =
           Inr (sketch_demo\<lparr>flt := ?g\<rparr>, False)"
    by (simp add: checkUpdateUSB_def Let_def reinit_def is_fir_def resetHistory_def set_property_def)
  have g: "filter_sel ?g = movingAvg" "idbuffer ?g = 0" "dbuffer ?g = dbuffer ?f"
    "filterProperties ?g movingAvg = 300 # [0, 0, 0, 0, 0]"
    by (simp_all add: resetHistory_def set_property_def i)
       (simp add: sketch_demo_def sketch_init_def filters_init_def Let_def defaultProperties_def exact_def)
  have 3: "process exact 1 0 ?g = Inl OutOfBounds"
    by (simp add: process_def Let_def g a)
  from proc_avg_basic_safe [of ?f exact 1 300] i
  obtain avg s' where 4: "proc_avg_basic exact 1 300 ?f = Inr (fdiv exact avg (fint exact (clamp_samples 300)), s')"
    by (auto simp add: Nmax_def)
  have 5: "fdiv exact avg (fint exact (clamp_samples 300)) = avg / 256"
    by (simp add: exact_def clamp_samples_def Let_def Nmax_def)
  show ?thesis
    using 4 5 by (simp add: outputs_def 1 2 3 a i)
qed

section \<open>Programmable IIR filter\<close>

lemma b_mul_shift_length: "length (fst (b_mul_shift ops bs c xh yn)) = length xh"
  by (induction c arbitrary: xh yn) simp_all

lemma b_shift_mul_length: "length (fst (b_shift_mul ops bs c xh yn)) = length xh"
  by (induction c arbitrary: xh yn) (simp_all add: Let_def)

lemma a_mul_shift_length: "length (fst (a_mul_shift ops as c yh yn)) = length yh"
  by (induction c arbitrary: yh yn) simp_all

lemma a_shift_mul_length: "length (fst (a_shift_mul ops as c yh yn)) = length yh"
  by (induction c arbitrary: yh yn) (simp_all add: Let_def)

lemma proc_iir_core_order:
  assumes "proc_iir_core ops bs as xn (xh, yh) = Inr (y, xh', yh')"
  shows "xh' ! 0 = xn \<and> yh' ! 0 = y
       \<and> y = (let (xh1, y1) = b_mul_shift ops bs (min Niirmax (length bs) - 1) xh (flit ops 0);
                   (yh1, y3) = a_mul_shift ops as (min Niirmax (length as) - 2) yh
                                  (fadd ops y1 (fmul ops (bs ! 0) xn))
               in fsub ops y3 (fmul ops (as ! 1) (yh1 ! 0)))"
  using assms
  by (auto simp add: proc_iir_core_def iir_in_bounds_def Let_def split_def Niirmax_def
      b_mul_shift_length a_mul_shift_length split: if_splits)

lemma proc_iir_shift_first_order:
  assumes "proc_iir_shift_first ops bs as xn (xh, yh) = Inr (y, xh', yh')"
  shows "xh' ! 0 = xn \<and> yh' ! 0 = y
       \<and> y = (let (xh1, y1) = b_shift_mul ops bs (min Niirmax (length bs) - 1) xh (flit ops 0);
                   (yh1, y3) = a_mul_shift ops as (min Niirmax (length as) - 2) yh
                                  (fadd ops y1 (fmul ops (bs ! 0) xn))
               in fsub ops y3 (fmul ops (as ! 1) (yh1 ! 0)))"
  using assms
  by (auto simp add: proc_iir_shift_first_def iir_in_bounds_def Let_def split_def Niirmax_def
      b_shift_mul_length a_mul_shift_length split: if_splits)

lemma proc_iir_channel_order:
  assumes "proc_iir_channel ops bs as xn (xh, yh) = Inr (y, xh', yh')"
  shows "xh' ! 0 = xn \<and> yh' ! 0 = y
       \<and> y = (let (xh1, y1) = b_shift_mul ops bs (min Niirmax (length bs) - 1) xh (flit ops 0);
                   (yh1, y3) = a_shift_mul ops as (min Niirmax (length as) - 2) yh
                                  (fadd ops y1 (fmul ops (bs ! 0) xn))
               in fsub ops y3 (fmul ops (as ! 1) (yh1 ! 0)))"
  using assms
  by (auto simp add: proc_iir_channel_def iir_in_bounds_def Let_def split_def Niirmax_def
      b_shift_mul_length a_shift_mul_length split: if_splits)

lemma proc_iir_late_latch_ignores_input:
  assumes "proc_iir_late_latch ops bs as xn (xh, yh) = Inr (y, xh', yh')"
  shows "proc_iir_late_latch ops bs as xn' (xh, yh) = Inr (y, xh'[0 := xn'], yh')"
  using assms
  by (auto simp add: proc_iir_late_latch_def iir_in_bounds_def Let_def split_def split: if_splits)


text \<open>
  Claim C7. In \<open>proc_iir\<close> of \<open>Exercise07-11/SpectralProcessingDSMV/iir.h\<close>, in the second
  version in that file and in the version of the lock-in amplifier the input is in
  \<open>xnhist[0]\<close> when \<open>bn[0]\<close> times the input is added, and the output is stored in
  \<open>ynhist[0]\<close> after the last term (\<open>proc_iir_core_order\<close>, \<open>proc_iir_shift_first_order\<close>,
  \<open>proc_iir_channel_order\<close>). The third version in the file adds \<open>bn[0]*xnhist[0]\<close> before
  it stores the input, so its output does not depend on the input of the same step
  (\<open>proc_iir_late_latch_ignores_input\<close>): with the tables \<open>bn = {1}\<close> and \<open>an = {1, 0}\<close> and
  an empty history it answers the input 5 with 0 and the next input 7 with 5, where the
  other three versions answer 5 with 5.
\<close>

theorem proc_iir_late_latch_delays:
  "proc_iir_late_latch exact [1] [1, 0] 5 (replicate Niirmax 0, replicate Niirmax 0)
     = Inr (0, (replicate Niirmax 0)[0 := 5], (replicate Niirmax 0)[0 := 0])
   \<and> proc_iir_late_latch exact [1] [1, 0] 7 ((replicate Niirmax 0)[0 := 5], (replicate Niirmax 0)[0 := 0])
     = Inr (5, (replicate Niirmax 0)[0 := 7], (replicate Niirmax 0)[0 := 5])
   \<and> proc_iir_core exact [1] [1, 0] 5 (replicate Niirmax 0, replicate Niirmax 0)
     = Inr (5, (replicate Niirmax 0)[0 := 5], (replicate Niirmax 0)[0 := 5])
   \<and> proc_iir_shift_first exact [1] [1, 0] 5 (replicate Niirmax 0, replicate Niirmax 0)
     = Inr (5, (replicate Niirmax 0)[0 := 5], (replicate Niirmax 0)[0 := 5])
   \<and> proc_iir_channel exact [1] [1, 0] 5 (replicate Niirmax 0, replicate Niirmax 0)
     = Inr (5, (replicate Niirmax 0)[0 := 5], (replicate Niirmax 0)[0 := 5])"
  by (simp add: proc_iir_late_latch_def proc_iir_core_def proc_iir_shift_first_def
      proc_iir_channel_def iir_in_bounds_def Let_def exact_def Niirmax_def)

section \<open>Switching the filter\<close>











section \<open>The six evaluation strategies of the FIR filter\<close>


























end
